theory Spec2Isabelle
  imports Complex_Main
begin

section \<open>JavaScript primitives used by the routes\<close>

text \<open>
  Strings are byte lists; the source's strings are UTF-16, and the two agree on ASCII text.
  The model is about requests whose text is ASCII: white space is the six ASCII white-space
  characters, and upper-casing is that of the letters \<open>a\<close> to \<open>z\<close>.
  Instants (\<open>Date\<close> objects, \<open>getTime()\<close>) are integers in milliseconds since the epoch.
  The server's zone is a fixed offset \<open>tz\<close> in milliseconds (local = UTC + \<open>tz\<close>): no
  daylight-saving change falls inside the day a request is about.
\<close>

datatype js_error = Error string | TypeError

definition isWhiteSpace :: "char \<Rightarrow> bool" where
  "isWhiteSpace c = (c \<in> set [CHR '' '', CHR 0x09, CHR 0x0A, CHR 0x0B, CHR 0x0C, CHR 0x0D])"

definition trim :: "string \<Rightarrow> string" where
  "trim s = rev (dropWhile isWhiteSpace (rev (dropWhile isWhiteSpace s)))"

definition upperChar :: "char \<Rightarrow> char" where
  "upperChar c =
     (let n = (of_char c :: nat) in if 97 \<le> n \<and> n \<le> 122 then char_of (n - 32) else c)"

definition toUpperCase :: "string \<Rightarrow> string" where
  "toUpperCase s = map upperChar s"

text \<open>\<open>s.includes(sub)\<close>: \<open>sub\<close> occurs in \<open>s\<close> as a contiguous block.\<close>

fun str_includes :: "string \<Rightarrow> string \<Rightarrow> bool" where
  "str_includes [] sub = (sub = [])"
| "str_includes (c # cs) sub = (take (length sub) (c # cs) = sub \<or> str_includes cs sub)"

text \<open>A query or body field is absent (\<open>None\<close>) or a string; JavaScript's truthiness
  of such a value: present and not empty.\<close>

definition truthy :: "string option \<Rightarrow> bool" where
  "truthy v = (case v of None \<Rightarrow> False | Some s \<Rightarrow> s \<noteq> [])"

text \<open>
  \<open>parseInt(s)\<close> without a radix: leading white space, an optional sign, an optional
  \<open>0x\<close> prefix, then the longest run of digits; \<open>None\<close> is \<open>NaN\<close>. The result is an
  unbounded integer where JavaScript has a double; every comparison the routes make with a
  parsed number is against a constant far below \<open>2^53\<close>, where the two agree.
\<close>

definition digitVal :: "nat \<Rightarrow> char \<Rightarrow> nat option" where
  "digitVal radix c =
     (let n = (of_char c :: nat);
          d = (if 48 \<le> n \<and> n \<le> 57 then Some (n - 48)
               else if 97 \<le> n \<and> n \<le> 122 then Some (n - 87)
               else if 65 \<le> n \<and> n \<le> 90 then Some (n - 55)
               else None)
      in case d of None \<Rightarrow> None | Some v \<Rightarrow> if v < radix then Some v else None)"

fun parseDigits :: "nat \<Rightarrow> string \<Rightarrow> int option \<Rightarrow> int option" where
  "parseDigits radix [] acc = acc"
| "parseDigits radix (c # cs) acc =
     (case digitVal radix c of
        None \<Rightarrow> acc
      | Some d \<Rightarrow>
          parseDigits radix cs
            (Some (int radix * (case acc of None \<Rightarrow> 0 | Some a \<Rightarrow> a) + int d)))"

definition parseInt :: "string \<Rightarrow> int option" where
  "parseInt s =
     (let s1 = dropWhile isWhiteSpace s;
          neg = (case s1 of [] \<Rightarrow> False | c # _ \<Rightarrow> c = CHR ''-'');
          s2 = (case s1 of [] \<Rightarrow> [] | c # r \<Rightarrow> if c = CHR ''-'' \<or> c = CHR ''+'' then r else s1);
          hex = (case s2 of c # x # _ \<Rightarrow> c = CHR ''0'' \<and> (x = CHR ''x'' \<or> x = CHR ''X'') | _ \<Rightarrow> False)
      in case (if hex then parseDigits 16 (drop 2 s2) None else parseDigits 10 s2 None) of
           None \<Rightarrow> None
         | Some n \<Rightarrow> Some (if neg then - n else n))"

text \<open>\<open>a % b\<close> for a positive \<open>b\<close>: the remainder has the sign of \<open>a\<close>.\<close>

definition js_rem :: "int \<Rightarrow> int \<Rightarrow> int" where
  "js_rem a b = (if 0 \<le> a then a mod b else - ((- a) mod b))"

text \<open>\<open>Math.ceil(a / b)\<close> for integers \<open>a\<close> and a positive \<open>b\<close>.\<close>

definition ceilDiv :: "int \<Rightarrow> int \<Rightarrow> int" where
  "ceilDiv a b = - ((- a) div b)"

fun showNat :: "nat \<Rightarrow> string" where
  "showNat n = (if n < 10 then [char_of (48 + n)] else showNat (n div 10) @ [char_of (48 + n mod 10)])"

declare showNat.simps [simp del]

definition showInt :: "int \<Rightarrow> string" where
  "showInt i = (if i < 0 then CHR ''-'' # showNat (nat (- i)) else showNat (nat i))"

definition padStart2 :: "string \<Rightarrow> string" where
  "padStart2 s = replicate (2 - length s) CHR ''0'' @ s"

section \<open>The maps service\<close>

text \<open>
  The class \<open>MapsService\<close>. Its collaborators are the geocoding API, the routes API, the
  process environment and the clock; they are the fields of \<open>maps_env\<close>. Its own mutable
  state is \<open>maps_state\<close>. The source keeps travel results and buffers in one \<open>Map\<close>:
  buffer keys start with the lower-case text \<open>buffer_\<close> and travel keys are upper-cased
  addresses, so the two key spaces never meet and the model keeps them as two maps.
  Two fields of the state are not in the source and influence no result: \<open>routeCalls\<close>
  is a log of the request bodies posted to the routes API, kept to state what the service
  asks of it, and \<open>bufferEstimates\<close> records, for every buffer the service caches, the
  travel estimate it was computed from, kept to state what a repeated answer is the
  rounding of.
\<close>

record latlng =
  latitude :: rat
  longitude :: rat

datatype geocode_response = GeocodeThrew | GeocodeData string "latlng list"

record route_row =
  distanceMeters :: "int option"
  duration :: "nat option"

datatype route_response = RouteThrew | RouteRows "route_row list" | RouteOther

record route_request =
  origin :: latlng
  destination :: latlng
  departureTime :: "int option"

record travel_data =
  distance_text :: string
  distance_value :: "int option"
  duration_text :: string
  duration_value :: int
  traffic_text :: string
  traffic_value :: int
  td_origin :: string
  td_destination :: string

record 'a cached =
  timestamp :: int
  data :: 'a

record maps_env =
  apiKey :: "string option"
  geocodeApi :: "string \<Rightarrow> geocode_response"
  routesApi :: "route_request \<Rightarrow> route_response"
  dateNow :: int
  tzOffset :: int

record maps_state =
  geocodeCache :: "string \<rightharpoonup> latlng"
  travelTimeCache :: "string \<rightharpoonup> travel_data cached"
  bufferCache :: "string \<rightharpoonup> int cached"
  routeCalls :: "route_request list"
  bufferEstimates :: "string \<rightharpoonup> travel_data"

text \<open>The state the constructor leaves: empty caches.\<close>

definition empty_maps_state :: maps_state where
  "empty_maps_state =
     \<lparr>geocodeCache = Map.empty, travelTimeCache = Map.empty, bufferCache = Map.empty,
      routeCalls = [], bufferEstimates = Map.empty\<rparr>"

definition officeAddress :: string where
  "officeAddress = ''825 Parkway St Suite 8, Jupiter, FL 33477''"

definition officeLatLng :: latlng where
  "officeLatLng = \<lparr>latitude = 269342 / 10000, longitude = - (800942 / 10000)\<rparr>"

definition stuartLatLng :: latlng where
  "stuartLatLng =
     \<lparr>latitude = 271476881 / 10000000,
      longitude = - (8021795449999999 / 100000000000000)\<rparr>"

definition cacheDuration :: int where
  "cacheDuration = 30 * 60 * 1000"

text \<open>The \<open>catch\<close> block of \<open>addressToLatLng\<close>.\<close>

definition geocodeFallback :: "maps_state \<Rightarrow> string \<Rightarrow> latlng \<times> maps_state" where
  "geocodeFallback st normalizedAddress =
     (if str_includes (toUpperCase normalizedAddress) ''STUART''
         \<or> str_includes (toUpperCase normalizedAddress) ''SE FEDERAL HWY''
      then (stuartLatLng,
            st\<lparr>geocodeCache := (geocodeCache st)(toUpperCase normalizedAddress \<mapsto> stuartLatLng)\<rparr>)
      else (officeLatLng, st))"

definition addressToLatLng ::
  "maps_env \<Rightarrow> maps_state \<Rightarrow> string option \<Rightarrow> (js_error + latlng) \<times> maps_state" where
  "addressToLatLng env st address =
     (case address of
        None \<Rightarrow> (Inl (Error ''Address is required''), st)
      | Some a \<Rightarrow>
          if a = [] then (Inl (Error ''Address is required''), st)
          else
            let normalizedAddress = trim a in
            (case geocodeCache st (toUpperCase normalizedAddress) of
               Some hit \<Rightarrow> (Inr hit, st)
             | None \<Rightarrow>
                 (case geocodeApi env normalizedAddress of
                    GeocodeThrew \<Rightarrow>
                      (case geocodeFallback st normalizedAddress of (r, st') \<Rightarrow> (Inr r, st'))
                  | GeocodeData status results \<Rightarrow>
                      (case results of
                         [] \<Rightarrow> (case geocodeFallback st normalizedAddress of (r, st') \<Rightarrow> (Inr r, st'))
                       | location # _ \<Rightarrow>
                           if status = ''OK''
                           then (Inr location,
                                 st\<lparr>geocodeCache :=
                                      (geocodeCache st)(toUpperCase normalizedAddress \<mapsto> location)\<rparr>)
                           else (case geocodeFallback st normalizedAddress of
                                   (r, st') \<Rightarrow> (Inr r, st'))))))"

text \<open>\<open>getCacheKey\<close>: the arrival time is cut to the full hour of the server's local time.\<close>

definition getCacheKey :: "maps_env \<Rightarrow> string \<Rightarrow> int option \<Rightarrow> string" where
  "getCacheKey env destinationAddress arrivalTime =
     (let normalizedAddress = trim (toUpperCase destinationAddress) in
      case arrivalTime of
        None \<Rightarrow> normalizedAddress
      | Some t \<Rightarrow> normalizedAddress @ ''_'' @ showInt (t - (t + tzOffset env) mod 3600000))"

definition isCacheValid :: "maps_env \<Rightarrow> 'a cached \<Rightarrow> bool" where
  "isCacheValid env cachedData =
     (if timestamp cachedData = 0 then False
      else dateNow env - timestamp cachedData < cacheDuration)"

definition defaultResult :: "string \<Rightarrow> travel_data" where
  "defaultResult destinationAddress =
     \<lparr>distance_text = ''25 mi'', distance_value = Some 40234,
      duration_text = ''30 mins'', duration_value = 1800,
      traffic_text = ''35 mins'', traffic_value = 2100,
      td_origin = officeAddress, td_destination = destinationAddress\<rparr>"

text \<open>\<open>Math.round(distanceMeters / 1609.34)\<close> as text; the quotient is never half-way
  between two integers, so rounding it is the integer division below.\<close>

definition milesText :: "int option \<Rightarrow> string" where
  "milesText m =
     (case m of None \<Rightarrow> ''NaN mi''
      | Some v \<Rightarrow> showInt ((200 * v + 160934) div 321868) @ '' mi'')"

definition routeResult :: "string \<Rightarrow> route_row \<Rightarrow> nat \<Rightarrow> travel_data" where
  "routeResult destinationAddress routeData secs =
     \<lparr>distance_text = milesText (distanceMeters routeData),
      distance_value = distanceMeters routeData,
      duration_text = showInt (ceilDiv (int secs) 60) @ '' mins'',
      duration_value = int secs,
      traffic_text = showInt (ceilDiv (int secs) 60) @ '' mins'',
      traffic_value = int secs,
      td_origin = officeAddress, td_destination = destinationAddress\<rparr>"

text \<open>The \<open>try\<close> block of \<open>calculateTravelTime\<close>; \<open>Inl\<close> is a thrown error.\<close>

definition calculateTravelTime_try ::
  "maps_env \<Rightarrow> maps_state \<Rightarrow> string option \<Rightarrow> int option
     \<Rightarrow> (js_error + travel_data) \<times> maps_state" where
  "calculateTravelTime_try env st destinationAddress arrivalTime =
     (case destinationAddress of
        None \<Rightarrow> (Inl (Error ''Destination address is required''), st)
      | Some dest \<Rightarrow>
          if dest = [] then (Inl (Error ''Destination address is required''), st)
          else if \<not> truthy (apiKey env)
          then (Inl (Error ''ROUTES_API_KEY is not configured in environment variables''), st)
          else
           (let cacheKey = getCacheKey env dest arrivalTime;
                hit = (case travelTimeCache st cacheKey of
                         None \<Rightarrow> None
                       | Some c \<Rightarrow> if isCacheValid env c then Some (data c) else None)
            in case hit of
                 Some d \<Rightarrow> (Inr d, st)
               | None \<Rightarrow>
                   (case addressToLatLng env st destinationAddress of
                      (Inl e, st1) \<Rightarrow> (Inl e, st1)
                    | (Inr destinationLatLng, st1) \<Rightarrow>
                       (let requestBody = \<lparr>origin = officeLatLng,
                                           destination = destinationLatLng,
                                           departureTime = arrivalTime\<rparr>;
                            st2 = st1\<lparr>routeCalls := routeCalls st1 @ [requestBody]\<rparr>
                        in case routesApi env requestBody of
                             RouteRows (routeData # _) \<Rightarrow>
                               (case duration routeData of
                                  None \<Rightarrow> (Inl TypeError, st2)
                                | Some secs \<Rightarrow>
                                    let result = routeResult dest routeData secs in
                                    (Inr result,
                                     st2\<lparr>travelTimeCache := (travelTimeCache st2)
                                            (cacheKey := Some \<lparr>timestamp = dateNow env,
                                                               data = result\<rparr>)\<rparr>))
                           | RouteRows [] \<Rightarrow>
                               (Inl (Error ''Unexpected response format from Routes API''), st2)
                           | RouteOther \<Rightarrow>
                               (Inl (Error ''Unexpected response format from Routes API''), st2)
                           | RouteThrew \<Rightarrow> (Inl (Error ''Request failed''), st2)))))"

text \<open>\<open>calculateTravelTime\<close>: whatever the \<open>try\<close> block throws, the \<open>catch\<close> block caches
  and returns the default result; a missing address makes the \<open>catch\<close> block itself throw.\<close>

definition calculateTravelTime ::
  "maps_env \<Rightarrow> maps_state \<Rightarrow> string option \<Rightarrow> int option
     \<Rightarrow> (js_error + travel_data) \<times> maps_state" where
  "calculateTravelTime env st destinationAddress arrivalTime =
     (case calculateTravelTime_try env st destinationAddress arrivalTime of
        (Inr result, st') \<Rightarrow> (Inr result, st')
      | (Inl e, st') \<Rightarrow>
          (case destinationAddress of
             None \<Rightarrow> (Inl TypeError, st')
           | Some dest \<Rightarrow>
               (Inr (defaultResult dest),
                st'\<lparr>travelTimeCache := (travelTimeCache st')
                       (getCacheKey env dest arrivalTime
                          := Some \<lparr>timestamp = dateNow env, data = defaultResult dest\<rparr>)\<rparr>)))"

text \<open>The travel time in minutes, rounded up to the next multiple of 30.\<close>

definition roundedTravelTime :: "travel_data \<Rightarrow> int" where
  "roundedTravelTime travelData =
     (let travelTimeMinutes = ceilDiv (traffic_value travelData) 60
      in ceilDiv travelTimeMinutes 30 * 30)"

definition calculateTravelTimeBuffer ::
  "maps_env \<Rightarrow> maps_state \<Rightarrow> string option \<Rightarrow> int option \<Rightarrow> int \<times> maps_state" where
  "calculateTravelTimeBuffer env st destinationAddress arrivalTime =
     (case destinationAddress of
        None \<Rightarrow> (30, st)
      | Some dest \<Rightarrow>
         (let normalizedAddress = trim (toUpperCase dest);
              bufferCacheKey = ''buffer_'' @ getCacheKey env normalizedAddress arrivalTime;
              hit = (case bufferCache st bufferCacheKey of
                       None \<Rightarrow> None
                     | Some c \<Rightarrow> if isCacheValid env c then Some (data c) else None)
          in case hit of
               Some b \<Rightarrow> (b, st)
             | None \<Rightarrow>
                 (case calculateTravelTime env st (Some normalizedAddress) arrivalTime of
                    (Inl e, st1) \<Rightarrow> (30, st1)
                  | (Inr travelData, st1) \<Rightarrow>
                      (roundedTravelTime travelData,
                       st1\<lparr>bufferCache := (bufferCache st1)
                             (bufferCacheKey
                                := Some \<lparr>timestamp = dateNow env,
                                         data = roundedTravelTime travelData\<rparr>),
                           bufferEstimates := (bufferEstimates st1)
                             (bufferCacheKey := Some travelData)\<rparr>))))"

text \<open>The states the service can be in: the constructor's, and every state a call of one
  of its methods leaves, whatever the collaborators answer and whatever the time is.
  (\<open>getTravelEventDetails\<close> changes the state only through \<open>calculateTravelTimeBuffer\<close>.)\<close>

inductive reachable :: "maps_state \<Rightarrow> bool" where
  constructed: "reachable empty_maps_state"
| geocoded: "reachable st \<Longrightarrow> reachable (snd (addressToLatLng env st address))"
| timed:
    "reachable st \<Longrightarrow> reachable (snd (calculateTravelTime env st destinationAddress arrivalTime))"
| buffered:
    "reachable st
     \<Longrightarrow> reachable (snd (calculateTravelTimeBuffer env st destinationAddress arrivalTime))"

section \<open>The availability route\<close>

text \<open>
  \<open>routes/msAvailability.js\<close>. A calendar date (\<open>YYYY-MM-DD\<close>) is its day number, the
  days since 1970-01-01, a Thursday. A \<open>TIME\<close> column or \<open>HH:MM:SS\<close> text is a \<open>tod\<close>.
  The collaborators of a route are the fields of \<open>route_env\<close>: the clock (\<open>today\<close> is
  the day number of the server's local date; \<open>estHours\<close> and \<open>estMinutes\<close> are the two
  numbers the \<open>America/New_York\<close> formatter prints), the server's zone, the rows of the
  holidays table and whether a query on it throws, the rows of the operating-hours table as
  the database returns them (or the failure of the query), the configured photographers, the
  calendar's answer to the one \<open>getPhotographersAvailability\<close> call of a request, and the
  maps service's answers to \<open>calculateTravelTimeBuffer\<close> and \<open>calculateTravelTime\<close> calls
  as functions of their two arguments (within a request the service's cache makes equal
  calls agree).
\<close>

record tod =
  hh :: nat
  mm :: nat
  ss :: nat

datatype http_error = HttpError nat string

datatype 'a query_result = QueryFailed | QueryRows "'a list"

record holiday_row =
  holiday_date :: int
  holiday_is_active :: bool

record hours_row =
  day_of_week :: nat
  open_time :: tod
  close_time :: tod
  is_active :: bool

record event =
  showAs :: string
  event_start :: int
  event_end :: int
  subject :: string
  location :: "string option"

record slot =
  start_time :: string
  end_time :: string
  photographer :: string
  is_primary :: bool

record avail_query =
  date :: "int option"
  service_type :: "string option"
  square_footage :: "string option"
  property_price :: "string option"
  property_address :: "string option"

record route_env =
  today :: int
  estHours :: nat
  estMinutes :: nat
  serverTz :: int
  holidays :: "holiday_row list"
  holidayQueryFails :: bool
  operating_hours :: "hours_row query_result"
  photographers :: "string list"
  getPhotographersAvailability :: "js_error + (string \<rightharpoonup> event list)"
  travelTimeBufferOf :: "string \<Rightarrow> int option \<Rightarrow> js_error + int"
  travelTimeOf :: "string \<Rightarrow> int \<Rightarrow> js_error + travel_data"

text \<open>The date helpers compare local midnights, which is comparing day numbers;
  \<open>getDay()\<close> of a local midnight is the weekday of the date, 0 for Sunday.\<close>

definition getCorrectDayOfWeek :: "int \<Rightarrow> nat" where
  "getCorrectDayOfWeek dateString = nat ((dateString + 4) mod 7)"

definition isDateInPast :: "route_env \<Rightarrow> int \<Rightarrow> bool" where
  "isDateInPast env dateString = (dateString < today env)"

definition isDateToday :: "route_env \<Rightarrow> int \<Rightarrow> bool" where
  "isDateToday env dateString = (dateString = today env)"

definition isDateTomorrow :: "route_env \<Rightarrow> int \<Rightarrow> bool" where
  "isDateTomorrow env dateString = (dateString = today env + 1)"

definition isBeforeCutoffTime :: "route_env \<Rightarrow> bool" where
  "isBeforeCutoffTime env =
     (estHours env < 17 \<or> (estHours env = 17 \<and> estMinutes env = 0))"

definition timeToMinutes :: "tod \<Rightarrow> int" where
  "timeToMinutes timeString = int (hh timeString) * 60 + int (mm timeString)"

definition minutesToTime :: "int \<Rightarrow> string" where
  "minutesToTime minutes =
     (let hours = minutes div 60;
          mins = js_rem minutes 60;
          period = (if hours \<ge> 12 then ''PM'' else ''AM'');
          hours12 = (if js_rem hours 12 = 0 then 12 else js_rem hours 12);
          formattedMinutes = padStart2 (showInt mins)
      in showInt hours12 @ '':'' @ formattedMinutes @ '' '' @ period)"

text \<open>The two \<open>SELECT ... WHERE ... AND is_active = true\<close> queries.\<close>

definition holidayCheck :: "route_env \<Rightarrow> int \<Rightarrow> holiday_row query_result" where
  "holidayCheck env formattedDate =
     (if holidayQueryFails env then QueryFailed
      else QueryRows (filter (\<lambda>r. holiday_date r = formattedDate \<and> holiday_is_active r)
                        (holidays env)))"

definition operatingHoursQuery :: "route_env \<Rightarrow> nat \<Rightarrow> hours_row query_result" where
  "operatingHoursQuery env dayOfWeek =
     (case operating_hours env of
        QueryFailed \<Rightarrow> QueryFailed
      | QueryRows rows \<Rightarrow>
          QueryRows (filter (\<lambda>r. day_of_week r = dayOfWeek \<and> is_active r) rows))"

text \<open>\<open>calculateDurationFromSquareFootage\<close>, statement by statement; \<open>tb\<close> is the maps
  service's \<open>calculateTravelTimeBuffer\<close>.\<close>

definition calculateDurationFromSquareFootage ::
  "(string \<Rightarrow> int option \<Rightarrow> js_error + int) \<Rightarrow> string option \<Rightarrow> string option
     \<Rightarrow> string option \<Rightarrow> int option \<Rightarrow> int" where
  "calculateDurationFromSquareFootage tb squareFootage propertyPrice propertyAddress bookingDateTime =
     (let sqft = (case squareFootage of None \<Rightarrow> None | Some s \<Rightarrow> parseInt s);
          price = (case propertyPrice of
                     None \<Rightarrow> Some 0
                   | Some p \<Rightarrow> if p = [] then Some 0 else parseInt (filter (\<lambda>c. c \<noteq> CHR '','') p));
          duration0 = (case sqft of
                         None \<Rightarrow> 120
                       | Some n \<Rightarrow> if n < 3000 then 60
                                   else if n \<ge> 3000 \<and> n < 4000 then 90
                                   else 120);
          duration1 = (case price of
                         None \<Rightarrow> duration0
                       | Some v \<Rightarrow>
                           (let priceAddition = (if v \<ge> 5000000 then 60
                                                 else if v \<ge> 1000000 then 30
                                                 else 0)
                            in if priceAddition > 0 then duration0 + priceAddition else duration0))
      in case propertyAddress of
           None \<Rightarrow> duration1
         | Some a \<Rightarrow>
             if a = [] then duration1
             else (case tb a bookingDateTime of
                     Inr travelBuffer \<Rightarrow> duration1 + travelBuffer * 2
                   | Inl err \<Rightarrow> duration1 + 30 * 2))"

text \<open>The duration a request asks for: lines \<open>let duration = 120\<close> to the end of the
  \<open>service_type\<close> chain, the same in the three routes of the file.\<close>

definition requestedDuration ::
  "(string \<Rightarrow> int option \<Rightarrow> js_error + int) \<Rightarrow> avail_query \<Rightarrow> int" where
  "requestedDuration tb q =
     (if truthy (square_footage q)
      then calculateDurationFromSquareFootage tb (square_footage q) (property_price q)
             (property_address q) None
      else (case service_type q of
              None \<Rightarrow> 120
            | Some t \<Rightarrow>
                if t = [] then 120
                else if t = ''standard'' then 120
                else if t = ''extended'' then 180
                else 60))"

definition isBusy :: "event \<Rightarrow> bool" where
  "isBusy ev = (showAs ev = ''busy'' \<or> showAs ev = ''oof'' \<or> showAs ev = ''tentative'')"

text \<open>Local midnight of a date, and \<open>setHours(h, m, 0, 0)\<close> on it.\<close>

definition localMidnight :: "route_env \<Rightarrow> int \<Rightarrow> int" where
  "localMidnight env formattedDate = formattedDate * 86400000 - serverTz env"

definition setHours :: "int \<Rightarrow> int \<Rightarrow> int \<Rightarrow> int" where
  "setHours midnight h m = midnight + (h * 60 + m) * 60000"

text \<open>\<open>new Date(`${formattedDate}T${HH}:${MM}:00`)\<close> with the two fields printed from a
  minute count: a date when they spell a time of day (up to \<open>24:00\<close>), otherwise an
  invalid date (\<open>None\<close>), which compares false with everything.\<close>

definition dateAtMinutes :: "route_env \<Rightarrow> int \<Rightarrow> int \<Rightarrow> int option" where
  "dateAtMinutes env formattedDate m =
     (if 0 \<le> m \<and> m \<le> 1440 then Some (localMidnight env formattedDate + m * 60000) else None)"

definition hasOverlap :: "int option \<Rightarrow> int option \<Rightarrow> event \<Rightarrow> bool" where
  "hasOverlap fullSlotStartUTC fullSlotEndUTC ev =
     (case fullSlotStartUTC of
        None \<Rightarrow> False
      | Some s \<Rightarrow>
          (case fullSlotEndUTC of
             None \<Rightarrow> False
           | Some e \<Rightarrow> s < event_end ev \<and> e > event_start ev))"

text \<open>The events stored for one photographer: \<open>msAvailability[email] || []\<close>.\<close>

definition eventsOf :: "(string \<rightharpoonup> event list) \<Rightarrow> string \<Rightarrow> event list" where
  "eventsOf msAvailability email = (case msAvailability email of None \<Rightarrow> [] | Some evs \<Rightarrow> evs)"

text \<open>The location test that guards both travel-gap checks.\<close>

definition locationNeedsTravel :: "event \<Rightarrow> bool" where
  "locationNeedsTravel ev =
     (case location ev of
        None \<Rightarrow> False
      | Some l \<Rightarrow> l \<noteq> [] \<and> \<not> str_includes l ''825 Parkway St'')"

text \<open>One travel-gap check: \<open>gapMs\<close> is the distance in milliseconds between the slot and
  the adjacent event; the source divides it by 60000 and compares with the buffer in
  minutes, the model compares it with the buffer in milliseconds.\<close>

definition gapSufficient ::
  "route_env \<Rightarrow> string \<Rightarrow> int \<Rightarrow> int \<Rightarrow> event \<Rightarrow> bool" where
  "gapSufficient env address lookupTime gapMs ev =
     (if locationNeedsTravel ev
      then (case travelTimeBufferOf env address (Some lookupTime) of
              Inr travelBuffer \<Rightarrow> \<not> gapMs < travelBuffer * 60000
            | Inl err \<Rightarrow> \<not> gapMs < 30 * 60000)
      else True)"

text \<open>The busy events that end before the slot starts, latest end first, and those that
  start after it ends, earliest start first (\<open>Array.prototype.sort\<close> is stable, as
  \<open>sort_key\<close> is).\<close>

definition priorEvents :: "event list \<Rightarrow> int \<Rightarrow> event list" where
  "priorEvents photographerEvents slotStartDate =
     sort_key (\<lambda>ev. - event_end ev)
       (filter (\<lambda>ev. isBusy ev \<and> event_end ev < slotStartDate) photographerEvents)"

definition nextEvents :: "event list \<Rightarrow> int \<Rightarrow> event list" where
  "nextEvents photographerEvents slotEndDate =
     sort_key event_start
       (filter (\<lambda>ev. isBusy ev \<and> event_start ev > slotEndDate) photographerEvents)"

definition hasSufficientTravelTime ::
  "route_env \<Rightarrow> string \<Rightarrow> event list \<Rightarrow> int \<Rightarrow> int \<Rightarrow> bool" where
  "hasSufficientTravelTime env address photographerEvents slotStartDate slotEndDate =
     (let before = (case priorEvents photographerEvents slotStartDate of
                      [] \<Rightarrow> True
                    | mostRecentEvent # _ \<Rightarrow>
                        gapSufficient env address slotStartDate
                          (slotStartDate - event_end mostRecentEvent) mostRecentEvent)
      in if before
         then (case nextEvents photographerEvents slotEndDate of
                 [] \<Rightarrow> True
               | nextEvent # _ \<Rightarrow>
                   gapSufficient env address slotEndDate
                     (event_start nextEvent - slotEndDate) nextEvent)
         else False)"

text \<open>The body of the loop over the photographers: does this one go into
  \<open>availablePhotographers\<close>?\<close>

definition photographerFree ::
  "route_env \<Rightarrow> avail_query \<Rightarrow> int \<Rightarrow> (string \<rightharpoonup> event list) \<Rightarrow> int \<Rightarrow> int \<Rightarrow> int
     \<Rightarrow> int \<Rightarrow> int \<Rightarrow> int \<Rightarrow> int \<Rightarrow> string \<Rightarrow> bool" where
  "photographerFree env q formattedDate msAvailability openMinutes closeMinutes travelTimeBuffer
     slotStart slotEnd slotStartDate slotEndDate email =
     (let fullSlotStartMinutes = slotStart - travelTimeBuffer;
          fullSlotEndMinutes = slotEnd + travelTimeBuffer
      in if fullSlotStartMinutes < openMinutes \<or> fullSlotEndMinutes > closeMinutes then False
         else
           (let fullSlotStartUTC = dateAtMinutes env formattedDate fullSlotStartMinutes;
                fullSlotEndUTC = dateAtMinutes env formattedDate fullSlotEndMinutes;
                isPhotographerAvailable =
                  (\<not> list_ex (\<lambda>ev. isBusy ev \<and> hasOverlap fullSlotStartUTC fullSlotEndUTC ev)
                        (eventsOf msAvailability email));
                sufficient =
                  (case property_address q of
                     None \<Rightarrow> True
                   | Some a \<Rightarrow>
                       if a \<noteq> [] \<and> isPhotographerAvailable
                       then hasSufficientTravelTime env a (eventsOf msAvailability email)
                              slotStartDate slotEndDate
                       else True)
            in isPhotographerAvailable \<and> sufficient))"

text \<open>The traffic-aware recalculation at the head of the loop body: \<open>None\<close> is the
  \<open>continue\<close>, otherwise the value of \<open>slotEndDate\<close> afterwards.\<close>

definition recalculatedSlotEnd ::
  "route_env \<Rightarrow> avail_query \<Rightarrow> int \<Rightarrow> int \<Rightarrow> int \<Rightarrow> int \<Rightarrow> int \<Rightarrow> int \<Rightarrow> int option" where
  "recalculatedSlotEnd env q midnight closeMinutes durationMinutes slotStart slotEnd bookingStartTime =
     (let slotEndDate = setHours midnight (slotEnd div 60) (js_rem slotEnd 60)
      in if truthy (square_footage q) \<and> truthy (property_address q)
         then (let timeSpecificDuration =
                     calculateDurationFromSquareFootage (travelTimeBufferOf env) (square_footage q)
                       (property_price q) (property_address q) (Some bookingStartTime)
               in if \<bar>timeSpecificDuration - durationMinutes\<bar> \<ge> 30
                  then (if slotStart + timeSpecificDuration > closeMinutes then None
                        else Some (setHours midnight ((slotStart + timeSpecificDuration) div 60)
                                     (js_rem (slotStart + timeSpecificDuration) 60)))
                  else Some slotEndDate)
         else Some slotEndDate)"

text \<open>One pass of the slot loop: the slot pushed for this start, if any.\<close>

definition candidateSlot ::
  "route_env \<Rightarrow> avail_query \<Rightarrow> int \<Rightarrow> (string \<rightharpoonup> event list) \<Rightarrow> int \<Rightarrow> int \<Rightarrow> int
     \<Rightarrow> int \<Rightarrow> int \<Rightarrow> slot option" where
  "candidateSlot env q formattedDate msAvailability openMinutes closeMinutes durationMinutes
     travelTimeBuffer slotStart =
     (let actualAppointmentDuration = durationMinutes - travelTimeBuffer * 2;
          slotEnd = slotStart + actualAppointmentDuration;
          midnight = localMidnight env formattedDate;
          slotStartDate = setHours midnight (slotStart div 60) (js_rem slotStart 60);
          bookingStartTime = slotStartDate
      in case recalculatedSlotEnd env q midnight closeMinutes durationMinutes slotStart slotEnd
                bookingStartTime of
           None \<Rightarrow> None
         | Some slotEndDate \<Rightarrow>
             (let availablePhotographers =
                    filter (photographerFree env q formattedDate msAvailability openMinutes
                              closeMinutes travelTimeBuffer slotStart slotEnd slotStartDate
                              slotEndDate)
                      (photographers env)
              in case availablePhotographers of
                   [] \<Rightarrow> None
                 | firstAvailable # _ \<Rightarrow>
                     (case photographers env of
                        [] \<Rightarrow> None
                      | primary # _ \<Rightarrow>
                          (let isPrimary = (primary \<in> set availablePhotographers);
                               assignedPhotographer = (if isPrimary then primary else firstAvailable)
                           in Some \<lparr>start_time = minutesToTime slotStart,
                                    end_time = minutesToTime slotEnd,
                                    photographer = assignedPhotographer,
                                    is_primary = isPrimary\<rparr>))))"

text \<open>The slot loop: \<open>for (slotStart = ...; slotStart + durationMinutes -
  travelTimeBuffer * 2 <= closeMinutes; slotStart += 30)\<close>.\<close>

function generateSlots ::
  "route_env \<Rightarrow> avail_query \<Rightarrow> int \<Rightarrow> (string \<rightharpoonup> event list) \<Rightarrow> int \<Rightarrow> int \<Rightarrow> int
     \<Rightarrow> int \<Rightarrow> int \<Rightarrow> slot list" where
  "generateSlots env q formattedDate msAvailability openMinutes closeMinutes durationMinutes
     travelTimeBuffer slotStart =
     (if slotStart + durationMinutes - travelTimeBuffer * 2 \<le> closeMinutes
      then (case candidateSlot env q formattedDate msAvailability openMinutes closeMinutes
                   durationMinutes travelTimeBuffer slotStart of
              None \<Rightarrow> []
            | Some s \<Rightarrow> [s])
           @ generateSlots env q formattedDate msAvailability openMinutes closeMinutes
               durationMinutes travelTimeBuffer (slotStart + 30)
      else [])"
  by pat_completeness auto
termination
  by (relation "measure (\<lambda>(env, q, formattedDate, msAvailability, openMinutes, closeMinutes,
                            durationMinutes, travelTimeBuffer, slotStart).
                   nat (closeMinutes - (slotStart + durationMinutes - travelTimeBuffer * 2) + 1))")
     auto

declare generateSlots.simps [simp del]

text \<open>\<open>router.get('/')\<close> from the holiday check on, for a date that passed the date
  checks.\<close>

definition slotsOfDate :: "route_env \<Rightarrow> avail_query \<Rightarrow> int \<Rightarrow> http_error + slot list" where
  "slotsOfDate env q formattedDate =
     (if (case holidayCheck env formattedDate of
            QueryFailed \<Rightarrow> False
          | QueryRows rows \<Rightarrow> length rows > 0)
      then Inr []
      else
        (case operatingHoursQuery env (getCorrectDayOfWeek formattedDate) of
           QueryFailed \<Rightarrow> Inl (HttpError 500 ''Error retrieving operating hours'')
         | QueryRows [] \<Rightarrow> Inr []
         | QueryRows (row # _) \<Rightarrow>
             (let duration = requestedDuration (travelTimeBufferOf env) q
              in if photographers env = []
                 then Inl (HttpError 500 ''No photographers configured in the system'')
                 else
                   (case getPhotographersAvailability env of
                      Inl err \<Rightarrow>
                        Inl (HttpError 500 ''An error occurred while determining availability'')
                    | Inr msAvailability \<Rightarrow>
                        (let durationMinutes = duration;
                             openMinutes = timeToMinutes (open_time row);
                             closeMinutes = timeToMinutes (close_time row);
                             travelTimeBuffer =
                               (case property_address q of
                                  None \<Rightarrow> 0
                                | Some a \<Rightarrow>
                                    if a = [] then 0
                                    else (case travelTimeBufferOf env a None of
                                            Inr b \<Rightarrow> b
                                          | Inl err \<Rightarrow> 30));
                             adjustedOpenMinutes = openMinutes + travelTimeBuffer
                         in Inr (generateSlots env q formattedDate msAvailability openMinutes
                                   closeMinutes durationMinutes travelTimeBuffer
                                   adjustedOpenMinutes))))))"

text \<open>\<open>router.get('/')\<close>: the slots of one date.\<close>

definition availableSlots :: "route_env \<Rightarrow> avail_query \<Rightarrow> http_error + slot list" where
  "availableSlots env q =
     (case date q of
        None \<Rightarrow> Inl (HttpError 400 ''Missing date parameter'')
      | Some formattedDate \<Rightarrow>
          if isDateInPast env formattedDate then Inr []
          else if isDateToday env formattedDate then Inr []
          else if isDateTomorrow env formattedDate \<and> \<not> isBeforeCutoffTime env then Inr []
          else slotsOfDate env q formattedDate)"

section \<open>The booking route\<close>

text \<open>
  \<open>router.post('/')\<close> of the bookings route. The body's date is a day number and its
  times are \<open>tod\<close> values (\<open>HH:MM:SS\<close> text); every other field is absent or a string.
  The outcome is the HTTP error sent, or what the route hands on: the selected photographer
  and the object \<open>bookingData\<close>, from which the three calendar events and the e-mail are
  made. The variables \<open>travelBuffer\<close>, \<open>travelInfo\<close>, \<open>startDateTime\<close> and
  \<open>endDateTime\<close> of the route are the record \<open>booking_locals\<close>; of these only the two
  dates are read again, when \<open>bookingData\<close> is built.
\<close>

record booking_body =
  booking_date :: "int option"
  req_start_time :: "tod option"
  req_end_time :: "tod option"
  customer_name :: "string option"
  customer_email :: "string option"
  customer_phone :: "string option"
  req_property_address :: "string option"
  property_city :: "string option"
  booking_notes :: "string option"
  photographer_email :: "string option"

record booking_data =
  clientName :: string
  clientEmail :: string
  clientPhone :: string
  service :: string
  bookingLocation :: string
  startDateTime :: int
  endDateTime :: int
  bookingNotes :: string

record created_booking =
  selectedPhotographer :: string
  bookingData :: booking_data

record booking_locals =
  localTravelBuffer :: int
  localTravelInfo :: string
  localStartDateTime :: int
  localEndDateTime :: int

definition MissingFields :: http_error where
  "MissingFields = HttpError 400 ''Missing required fields''"

definition OutsideHours :: http_error where
  "OutsideHours = HttpError 400 ''Booking is outside of operating hours''"

definition Conflict :: http_error where
  "Conflict = HttpError 409 ''This time slot is no longer available''"

text \<open>The error the update route (\<open>router.put('/:id')\<close>) sends for a date with an active
  holiday row.\<close>

definition Holiday :: http_error where
  "Holiday = HttpError 400 ''Booking is on a holiday''"

definition todMs :: "tod \<Rightarrow> int" where
  "todMs t = ((int (hh t) * 60 + int (mm t)) * 60 + int (ss t)) * 1000"

text \<open>\<open>new Date(`${booking_date}T${start_time}`)\<close>: the text read as local time.\<close>

definition localDateTime :: "route_env \<Rightarrow> int \<Rightarrow> tod \<Rightarrow> int" where
  "localDateTime env d t = localMidnight env d + todMs t"

text \<open>\<open>new Date(`${booking_date}T${start_time}.000Z`)\<close>: the same text read as UTC.\<close>

definition utcDateTime :: "int \<Rightarrow> tod \<Rightarrow> int" where
  "utcDateTime d t = d * 86400000 + todMs t"

text \<open>\<open>x.getHours() * 60 + x.getMinutes()\<close>.\<close>

definition minutesOfDay :: "route_env \<Rightarrow> int \<Rightarrow> int" where
  "minutesOfDay env x = ((x + serverTz env) div 60000) mod 1440"

text \<open>\<open>x.setHours(h, m, 0)\<close>: the local day of \<open>x\<close> at \<open>h:m:00\<close>, milliseconds kept.\<close>

definition setHoursOf :: "route_env \<Rightarrow> int \<Rightarrow> int \<Rightarrow> int \<Rightarrow> int" where
  "setHoursOf env x h m =
     (x + serverTz env) div 86400000 * 86400000 - serverTz env
       + (h * 60 + m) * 60000 + (x + serverTz env) mod 1000"

definition orEmpty :: "string option \<Rightarrow> string" where
  "orEmpty v = (case v of None \<Rightarrow> [] | Some s \<Rightarrow> s)"

definition travelInfoText :: "travel_data \<Rightarrow> int \<Rightarrow> string" where
  "travelInfoText travelData travelBuffer =
     [CHR 0x0A] @ ''Travel info:'' @ [CHR 0x0A]
     @ ''- Distance from office: '' @ distance_text travelData @ [CHR 0x0A]
     @ ''- Travel time (one-way): '' @ duration_text travelData @ [CHR 0x0A]
     @ ''- Drive time with traffic: '' @ traffic_text travelData @ [CHR 0x0A]
     @ ''- Travel buffer allowed: '' @ showInt travelBuffer @ '' minutes each way''"

text \<open>The note appended when the way back ends after closing; it starts with a line feed
  and the warning sign U+26A0 U+FE0F in UTF-8.\<close>

definition overflowNote :: string where
  "overflowNote =
     [CHR 0x0A, CHR 0xE2, CHR 0x9A, CHR 0xA0, CHR 0xEF, CHR 0xB8, CHR 0x8F]
     @ '' Note: Travel back to the office will extend beyond operating hours.''"

text \<open>The overlap test of the conflict loop.\<close>

definition conflictsWith :: "int \<Rightarrow> int \<Rightarrow> event \<Rightarrow> bool" where
  "conflictsWith bookedStart bookedEnd ev =
     ((bookedStart \<ge> event_start ev \<and> bookedStart < event_end ev)
      \<or> (bookedEnd > event_start ev \<and> bookedEnd \<le> event_end ev)
      \<or> (bookedStart \<le> event_start ev \<and> bookedEnd \<ge> event_end ev))"

text \<open>\<open>travelBuffer\<close> and \<open>travelInfo\<close> after the \<open>try\<close> block around the
  \<open>calculateTravelTime\<close> call: 0 and empty when the call throws.\<close>

definition bookingTravelBuffer :: "js_error + travel_data \<Rightarrow> int" where
  "bookingTravelBuffer travel =
     (case travel of
        Inl err \<Rightarrow> 0
      | Inr travelData \<Rightarrow>
          ceilDiv (if traffic_value travelData \<noteq> 0 then traffic_value travelData
                   else duration_value travelData) 1800 * 30)"

definition bookingTravelInfo :: "js_error + travel_data \<Rightarrow> string" where
  "bookingTravelInfo travel =
     (case travel of
        Inl err \<Rightarrow> []
      | Inr travelData \<Rightarrow> travelInfoText travelData (bookingTravelBuffer travel))"

text \<open>The four variables as they stand when \<open>bookingData\<close> is built, for a request
  that has passed the operating-hours check against \<open>row\<close>: after the travel lookup,
  the shift of the two dates by the buffer, and the adjustment to the operating hours.\<close>

definition bookingLocals ::
  "route_env \<Rightarrow> booking_body \<Rightarrow> int \<Rightarrow> tod \<Rightarrow> tod \<Rightarrow> string \<Rightarrow> hours_row
     \<Rightarrow> booking_locals" where
  "bookingLocals env body d startT endT address row =
     (let startDateTime0 = localDateTime env d startT;
          endDateTime0 = localDateTime env d endT;
          fullAddress = address @ '', '' @ orEmpty (property_city body);
          travel = travelTimeOf env fullAddress startDateTime0;
          travelBuffer = bookingTravelBuffer travel;
          travelInfo0 = bookingTravelInfo travel;
          startDateTime1 = startDateTime0 - travelBuffer * 60000;
          endDateTime1 = endDateTime0 + travelBuffer * 60000;
          openHour = int (hh (open_time row));
          openMinute = int (mm (open_time row));
          openMinutes = openHour * 60 + openMinute;
          closeMinutes = int (hh (close_time row)) * 60 + int (mm (close_time row));
          actualStartMinutes = minutesOfDay env startDateTime1;
          actualEndMinutes = minutesOfDay env endDateTime1
      in \<lparr>localTravelBuffer = travelBuffer,
          localTravelInfo =
            (if actualEndMinutes > closeMinutes then travelInfo0 @ overflowNote
             else travelInfo0),
          localStartDateTime =
            (if actualStartMinutes < openMinutes
             then setHoursOf env startDateTime1 openHour openMinute
             else startDateTime1),
          localEndDateTime = endDateTime1\<rparr>)"

text \<open>The part of the route after the required-field and photographer checks.\<close>

definition createBookingFor ::
  "route_env \<Rightarrow> booking_body \<Rightarrow> int \<Rightarrow> tod \<Rightarrow> tod \<Rightarrow> string \<Rightarrow> string
     \<Rightarrow> http_error + created_booking" where
  "createBookingFor env body d startT endT address selected =
     (case getPhotographersAvailability env of
        Inl err \<Rightarrow> Inl (HttpError 500 ''Server error'')
      | Inr msAvailability \<Rightarrow>
          (case msAvailability selected of
             None \<Rightarrow> Inl (HttpError 500 ''Server error'')
           | Some events \<Rightarrow>
               (case operatingHoursQuery env (getCorrectDayOfWeek d) of
                  QueryFailed \<Rightarrow> Inl (HttpError 500 ''Server error'')
                | QueryRows [] \<Rightarrow> Inl OutsideHours
                | QueryRows (row # _) \<Rightarrow>
                    (let bookingStartMinutes = int (hh startT) * 60 + int (mm startT);
                         bookingEndMinutes = int (hh endT) * 60 + int (mm endT);
                         openMinutes = int (hh (open_time row)) * 60 + int (mm (open_time row));
                         closeMinutes = int (hh (close_time row)) * 60 + int (mm (close_time row))
                     in if bookingStartMinutes < openMinutes \<or> bookingEndMinutes > closeMinutes
                        then Inl OutsideHours
                        else
                          (let locals = bookingLocals env body d startT endT address row;
                               bookedStart = utcDateTime d startT;
                               bookedEnd = utcDateTime d endT
                           in if list_ex (\<lambda>ev. isBusy ev \<and> conflictsWith bookedStart bookedEnd ev)
                                   events
                              then Inl Conflict
                              else Inr \<lparr>selectedPhotographer = selected,
                                       bookingData =
                                         \<lparr>clientName = orEmpty (customer_name body),
                                          clientEmail = orEmpty (customer_email body),
                                          clientPhone = orEmpty (customer_phone body),
                                          service = ''Session'',
                                          bookingLocation =
                                            address @ '', '' @ orEmpty (property_city body),
                                          startDateTime = localStartDateTime locals,
                                          endDateTime = localEndDateTime locals,
                                          bookingNotes = orEmpty (booking_notes body)\<rparr>\<rparr>)))))"

text \<open>\<open>router.post('/')\<close>.\<close>

definition createBooking :: "route_env \<Rightarrow> booking_body \<Rightarrow> http_error + created_booking" where
  "createBooking env body =
     (case booking_date body of
        None \<Rightarrow> Inl MissingFields
      | Some d \<Rightarrow>
          (case req_start_time body of
             None \<Rightarrow> Inl MissingFields
           | Some startT \<Rightarrow>
               (case req_end_time body of
                  None \<Rightarrow> Inl MissingFields
                | Some endT \<Rightarrow>
                    if \<not> truthy (customer_name body) \<or> \<not> truthy (customer_email body)
                       \<or> \<not> truthy (req_property_address body)
                    then Inl MissingFields
                    else
                      (case photographers env of
                         [] \<Rightarrow> Inl (HttpError 500 ''No photographers configured in the system'')
                       | primary # others \<Rightarrow>
                           if truthy (photographer_email body)
                              \<and> orEmpty (photographer_email body) \<notin> set (photographers env)
                           then Inl (HttpError 400 ''Invalid photographer email'')
                           else createBookingFor env body d startT endT
                                  (orEmpty (req_property_address body))
                                  (if truthy (photographer_email body)
                                   then orEmpty (photographer_email body)
                                   else primary)))))"

section \<open>The specification's vocabulary\<close>

text \<open>The parts of a duration quote, in the specification's words: the base is 60 minutes
  under 3000 square feet, 90 from 3000 to 3999, and 120 from 4000 or when the figure is
  missing or not a number; the surcharge is 60 minutes from a price of 5,000,000, 30 from
  1,000,000 up to 5,000,000, and nothing otherwise; the travel buffer is the maps service's
  answer, or 30 when it fails.\<close>

definition baseMinutes :: "string option \<Rightarrow> int" where
  "baseMinutes squareFootage =
     (case squareFootage of
        None \<Rightarrow> 120
      | Some s \<Rightarrow>
          (case parseInt s of
             None \<Rightarrow> 120
           | Some n \<Rightarrow> if n < 3000 then 60 else if n \<le> 3999 then 90 else 120))"

definition priceSurchargeMinutes :: "string option \<Rightarrow> int" where
  "priceSurchargeMinutes propertyPrice =
     (if truthy propertyPrice
      then (case parseInt (filter (\<lambda>c. c \<noteq> CHR '','') (orEmpty propertyPrice)) of
              None \<Rightarrow> 0
            | Some v \<Rightarrow> if 5000000 \<le> v then 60
                        else if 1000000 \<le> v \<and> v < 5000000 then 30
                        else 0)
      else 0)"

definition travelBufferMinutes ::
  "(string \<Rightarrow> int option \<Rightarrow> js_error + int) \<Rightarrow> string \<Rightarrow> int option \<Rightarrow> int" where
  "travelBufferMinutes tb address bookingTime =
     (case tb address bookingTime of Inr b \<Rightarrow> b | Inl err \<Rightarrow> 30)"

text \<open>The slot of one hour that starts \<open>s\<close> minutes after midnight, given to the primary
  photographer.\<close>

definition hourlySlot :: "string \<Rightarrow> int \<Rightarrow> slot" where
  "hourlySlot p s =
     \<lparr>start_time = minutesToTime s, end_time = minutesToTime (s + 60), photographer = p,
      is_primary = True\<rparr>"

text \<open>A booking request that passes the required-field and photographer checks, and the
  photographer it selects.\<close>

definition wellFormed :: "route_env \<Rightarrow> booking_body \<Rightarrow> bool" where
  "wellFormed env body =
     (booking_date body \<noteq> None \<and> req_start_time body \<noteq> None \<and> req_end_time body \<noteq> None
      \<and> truthy (customer_name body) \<and> truthy (customer_email body)
      \<and> truthy (req_property_address body)
      \<and> photographers env \<noteq> []
      \<and> (truthy (photographer_email body)
           \<longrightarrow> orEmpty (photographer_email body) \<in> set (photographers env)))"

definition selectedOf :: "route_env \<Rightarrow> booking_body \<Rightarrow> string" where
  "selectedOf env body =
     (if truthy (photographer_email body) then orEmpty (photographer_email body)
      else (case photographers env of [] \<Rightarrow> [] | primary # _ \<Rightarrow> primary))"

text \<open>The travel lookup of a booking request, and its span with the travel buffer taken
  off the start and added to the end.\<close>

definition travelFor :: "route_env \<Rightarrow> booking_body \<Rightarrow> int \<Rightarrow> tod \<Rightarrow> js_error + travel_data" where
  "travelFor env body d startT =
     travelTimeOf env (orEmpty (req_property_address body) @ '', '' @ orEmpty (property_city body))
       (localDateTime env d startT)"

definition inflatedStart :: "route_env \<Rightarrow> booking_body \<Rightarrow> int \<Rightarrow> tod \<Rightarrow> int" where
  "inflatedStart env body d startT =
     localDateTime env d startT - bookingTravelBuffer (travelFor env body d startT) * 60000"

definition inflatedEnd :: "route_env \<Rightarrow> booking_body \<Rightarrow> int \<Rightarrow> tod \<Rightarrow> tod \<Rightarrow> int" where
  "inflatedEnd env body d startT endT =
     localDateTime env d endT + bookingTravelBuffer (travelFor env body d startT) * 60000"

definition openMinutesOf :: "hours_row \<Rightarrow> int" where
  "openMinutesOf row = int (hh (open_time row)) * 60 + int (mm (open_time row))"

definition closeMinutesOf :: "hours_row \<Rightarrow> int" where
  "closeMinutesOf row = int (hh (close_time row)) * 60 + int (mm (close_time row))"

text \<open>An event with no location, or one at the office address.\<close>

definition noLocationOrOffice :: "event \<Rightarrow> bool" where
  "noLocationOrOffice ev =
     (case location ev of
        None \<Rightarrow> True
      | Some l \<Rightarrow> l = [] \<or> str_includes l ''825 Parkway St'')"

text \<open>The condition under which \<open>addressToLatLng\<close> leaves its \<open>try\<close> block through
  the \<open>throw\<close>: the request failed, or the status is not \<open>OK\<close>, or there is no result.\<close>

definition geocodeFailed :: "geocode_response \<Rightarrow> bool" where
  "geocodeFailed r =
     (case r of
        GeocodeThrew \<Rightarrow> True
      | GeocodeData status results \<Rightarrow> status \<noteq> ''OK'' \<or> results = [])"

text \<open>The key under which \<open>calculateTravelTimeBuffer\<close> caches the buffer of an address
  and arrival time.\<close>

definition bufferCacheKeyOf :: "maps_env \<Rightarrow> string \<Rightarrow> int option \<Rightarrow> string" where
  "bufferCacheKeyOf env dest arrivalTime =
     ''buffer_'' @ getCacheKey env (trim (toUpperCase dest)) arrivalTime"

text \<open>Every cached buffer is the rounding of the estimate recorded for it.\<close>

definition buffersAreRounded :: "maps_state \<Rightarrow> bool" where
  "buffersAreRounded st =
     (\<forall>k c. bufferCache st k = Some c \<longrightarrow>
        (case bufferEstimates st k of
           None \<Rightarrow> False
         | Some travelData \<Rightarrow> data c = roundedTravelTime travelData))"

text \<open>The answer the routes get from one \<open>calculateTravelTimeBuffer\<close> call made in state
  \<open>mst\<close>: for an address that is a string the call never throws.\<close>

definition serviceBuffer ::
  "maps_env \<Rightarrow> maps_state \<Rightarrow> string \<Rightarrow> int option \<Rightarrow> js_error + int" where
  "serviceBuffer menv mst address arrivalTime =
     Inr (fst (calculateTravelTimeBuffer menv mst (Some address) arrivalTime))"

text \<open>No valid entry under a key of a cache.\<close>

definition cacheMiss :: "maps_env \<Rightarrow> (string \<rightharpoonup> 'a cached) \<Rightarrow> string \<Rightarrow> bool" where
  "cacheMiss env cache key =
     (case cache key of None \<Rightarrow> True | Some c \<Rightarrow> \<not> isCacheValid env c)"

subsection \<open>Example collaborators\<close>

text \<open>A routes API that answers a trip from the office to the office with zero seconds and
  any other trip with twenty minutes, behind a geocoder that places the office's street
  address at the office and every other address elsewhere.\<close>

definition office_trip_env :: maps_env where
  "office_trip_env =
     \<lparr>apiKey = Some ''key'',
      geocodeApi = (\<lambda>a. GeocodeData ''OK''
                          [if str_includes (toUpperCase a) ''825 PARKWAY ST'' then officeLatLng
                           else \<lparr>latitude = 27, longitude = - 80\<rparr>]),
      routesApi = (\<lambda>r. RouteRows [\<lparr>distanceMeters = None,
                                      duration = Some (if destination r = origin r then 0 else 1200)\<rparr>]),
      dateNow = 1762000000000,
      tzOffset = - 18000000\<rparr>"

text \<open>The same collaborators with the routes API down.\<close>

definition routes_down_env :: maps_env where
  "routes_down_env = office_trip_env\<lparr>routesApi := (\<lambda>r. RouteThrew)\<rparr>"

text \<open>The state after the service has answered one buffer request for \<open>12 Main St\<close>.\<close>

definition warm_maps_state :: maps_state where
  "warm_maps_state =
     snd (calculateTravelTimeBuffer office_trip_env empty_maps_state (Some ''12 Main St'') None)"

text \<open>A geocoder that is down, in front of the same routes API.\<close>

definition geocoder_down_env :: maps_env where
  "geocoder_down_env = office_trip_env\<lparr>geocodeApi := (\<lambda>a. GeocodeThrew)\<rparr>"

text \<open>Monday 2 November 2026 is day 20759. The office is open Monday to Friday from
  09:00 to 17:00, Thursday 26 November is a holiday, the one photographer's calendar holds
  nothing, and the maps service answers every buffer request with 30 minutes.\<close>

definition nine_to_five :: "nat \<Rightarrow> hours_row" where
  "nine_to_five dow =
     \<lparr>day_of_week = dow, open_time = \<lparr>hh = 9, mm = 0, ss = 0\<rparr>,
      close_time = \<lparr>hh = 17, mm = 0, ss = 0\<rparr>, is_active = True\<rparr>"

definition monday_hours :: hours_row where
  "monday_hours = nine_to_five 1"

definition route_travel :: travel_data where
  "route_travel =
     \<lparr>distance_text = ''12 mi'', distance_value = Some 19312,
      duration_text = ''20 mins'', duration_value = 1200,
      traffic_text = ''20 mins'', traffic_value = 1200,
      td_origin = officeAddress, td_destination = ''12 Main St, Jupiter''\<rparr>"

definition monday_env :: route_env where
  "monday_env =
     \<lparr>today = 20759, estHours = 10, estMinutes = 15, serverTz = - 18000000,
      holidays = [\<lparr>holiday_date = 20783, holiday_is_active = True\<rparr>],
      holidayQueryFails = False,
      operating_hours = QueryRows (monday_hours # map nine_to_five [2, 3, 4, 5]),
      photographers = [''cory@wfpcc.com''],
      getPhotographersAvailability = Inr [''cory@wfpcc.com'' \<mapsto> []],
      travelTimeBufferOf = (\<lambda>a t. Inr 30),
      travelTimeOf = (\<lambda>a t. Inr route_travel)\<rparr>"

text \<open>The same day with the holiday query throwing.\<close>

definition holiday_lookup_down_env :: route_env where
  "holiday_lookup_down_env = monday_env\<lparr>holidayQueryFails := True\<rparr>"

definition five_pm_env :: route_env where
  "five_pm_env = monday_env\<lparr>estHours := 17, estMinutes := 0\<rparr>"

definition half_past_five_env :: route_env where
  "half_past_five_env = monday_env\<lparr>estHours := 17, estMinutes := 30\<rparr>"

definition sqft_query :: "int \<Rightarrow> avail_query" where
  "sqft_query d =
     \<lparr>date = Some d, service_type = None, square_footage = Some ''2500'',
      property_price = None, property_address = None\<rparr>"

definition standard_query :: "int \<Rightarrow> avail_query" where
  "standard_query d =
     \<lparr>date = Some d, service_type = Some ''standard'', square_footage = None,
      property_price = None, property_address = Some ''12 Main St, Jupiter''\<rparr>"

definition holiday_booking :: booking_body where
  "holiday_booking =
     \<lparr>booking_date = Some 20783,
      req_start_time = Some \<lparr>hh = 10, mm = 0, ss = 0\<rparr>,
      req_end_time = Some \<lparr>hh = 11, mm = 0, ss = 0\<rparr>,
      customer_name = Some ''Ada Client'', customer_email = Some ''ada@example.com'',
      customer_phone = None, req_property_address = Some ''12 Main St'',
      property_city = Some ''Jupiter'', booking_notes = None, photographer_email = None\<rparr>"

text \<open>A booking from 09:00 to 17:00 on Monday 9 November, and a calendar with one busy
  event without a location that ends a minute before 10:00 local time on that day.\<close>

definition whole_day_booking :: booking_body where
  "whole_day_booking =
     holiday_booking\<lparr>booking_date := Some 20766,
                       req_start_time := Some \<lparr>hh = 9, mm = 0, ss = 0\<rparr>,
                       req_end_time := Some \<lparr>hh = 17, mm = 0, ss = 0\<rparr>\<rparr>"

definition early_event :: event where
  "early_event =
     \<lparr>showAs = ''busy'', event_start = 1794232800000, event_end = 1794236340000,
      subject = ''Staff meeting'', location = None\<rparr>"

text \<open>An office open on Mondays from 00:00 to 23:59, and a booking from 00:00 to 01:00 on
  Monday 9 November.\<close>

definition round_the_clock_env :: route_env where
  "round_the_clock_env =
     monday_env\<lparr>operating_hours :=
       QueryRows [\<lparr>day_of_week = 1, open_time = \<lparr>hh = 0, mm = 0, ss = 0\<rparr>,
                   close_time = \<lparr>hh = 23, mm = 59, ss = 0\<rparr>, is_active = True\<rparr>]\<rparr>"

definition midnight_booking :: booking_body where
  "midnight_booking =
     holiday_booking\<lparr>booking_date := Some 20766,
                       req_start_time := Some \<lparr>hh = 0, mm = 0, ss = 0\<rparr>,
                       req_end_time := Some \<lparr>hh = 1, mm = 0, ss = 0\<rparr>\<rparr>"

section \<open>Properties of the maps service\<close>

lemma addressToLatLng_fallback:
  assumes "a \<noteq> []"
    and "geocodeCache st (toUpperCase (trim a)) = None"
    and "geocodeFailed (geocodeApi env (trim a))"
  shows "addressToLatLng env st (Some a) =
           (Inr (fst (geocodeFallback st (trim a))), snd (geocodeFallback st (trim a)))"
  using assms
  by (auto simp: addressToLatLng_def geocodeFailed_def Let_def
           split: geocode_response.splits list.splits prod.splits)

lemma calculateTravelTime_returns:
  "\<exists>travelData st1. calculateTravelTime env st (Some dest) arrivalTime = (Inr travelData, st1)"
  by (auto simp: calculateTravelTime_def split: prod.splits sum.splits)

lemma ceilDiv_30_bounds:
  "30 dvd ceilDiv m 30 * 30 \<and> m \<le> ceilDiv m 30 * 30 \<and> ceilDiv m 30 * 30 < m + 30"
  unfolding ceilDiv_def by (simp; linarith)

lemma ceilDiv_le0: "0 < b \<Longrightarrow> (ceilDiv v b \<le> 0) = (v \<le> 0)"
  by (simp add: ceilDiv_def pos_imp_zdiv_nonneg_iff)

lemma rounded_at_least_30: "(30 \<le> ceilDiv (ceilDiv v 60) 30 * 30) = (0 < v)"
proof -
  have "(30 \<le> ceilDiv (ceilDiv v 60) 30 * 30) = (\<not> ceilDiv (ceilDiv v 60) 30 \<le> 0)"
    by auto
  also have "\<dots> = (\<not> v \<le> 0)"
    by (simp add: ceilDiv_le0)
  finally show ?thesis by auto
qed

lemma geocodeFallback_buffers:
  "bufferCache (snd (geocodeFallback st a)) = bufferCache st
   \<and> bufferEstimates (snd (geocodeFallback st a)) = bufferEstimates st"
  by (simp add: geocodeFallback_def Let_def)

lemma addressToLatLng_buffers:
  "bufferCache (snd (addressToLatLng env st address)) = bufferCache st
   \<and> bufferEstimates (snd (addressToLatLng env st address)) = bufferEstimates st"
proof (cases address)
  case None
  then show ?thesis
    by (simp add: addressToLatLng_def)
next
  case (Some a)
  obtain r st' where f: "geocodeFallback st (trim a) = (r, st')"
    by (cases "geocodeFallback st (trim a)")
  have "bufferCache st' = bufferCache st \<and> bufferEstimates st' = bufferEstimates st"
    using geocodeFallback_buffers [of st "trim a"] by (simp add: f)
  then show ?thesis
    by (auto simp: addressToLatLng_def Let_def Some f
             split: option.splits geocode_response.splits list.splits)
qed

lemma calculateTravelTime_try_buffers:
  "bufferCache (snd (calculateTravelTime_try env st destinationAddress arrivalTime)) = bufferCache st
   \<and> bufferEstimates (snd (calculateTravelTime_try env st destinationAddress arrivalTime))
       = bufferEstimates st"
proof (cases destinationAddress)
  case None
  then show ?thesis
    by (simp add: calculateTravelTime_try_def)
next
  case (Some dest)
  obtain r st1 where a: "addressToLatLng env st (Some dest) = (r, st1)"
    by (cases "addressToLatLng env st (Some dest)")
  have "bufferCache st1 = bufferCache st \<and> bufferEstimates st1 = bufferEstimates st"
    using addressToLatLng_buffers [of env st "Some dest"] by (simp add: a)
  then show ?thesis
    by (auto simp: calculateTravelTime_try_def Let_def Some a
             split: option.splits sum.splits route_response.splits list.splits)
qed

lemma calculateTravelTime_buffers:
  "bufferCache (snd (calculateTravelTime env st destinationAddress arrivalTime)) = bufferCache st
   \<and> bufferEstimates (snd (calculateTravelTime env st destinationAddress arrivalTime))
       = bufferEstimates st"
proof -
  obtain r st1 where a: "calculateTravelTime_try env st destinationAddress arrivalTime = (r, st1)"
    by (cases "calculateTravelTime_try env st destinationAddress arrivalTime")
  have "bufferCache st1 = bufferCache st \<and> bufferEstimates st1 = bufferEstimates st"
    using calculateTravelTime_try_buffers [of env st destinationAddress arrivalTime]
    by (simp add: a)
  then show ?thesis
    by (auto simp: calculateTravelTime_def a split: option.splits sum.splits)
qed

lemma buffersAreRounded_unchanged:
  assumes "buffersAreRounded st"
    and "bufferCache st' = bufferCache st \<and> bufferEstimates st' = bufferEstimates st"
  shows "buffersAreRounded st'"
  using assms by (simp add: buffersAreRounded_def)

lemma calculateTravelTimeBuffer_keeps_rounded:
  assumes "buffersAreRounded st"
  shows "buffersAreRounded (snd (calculateTravelTimeBuffer env st destinationAddress arrivalTime))"
proof (cases destinationAddress)
  case None
  then show ?thesis
    using assms by (simp add: calculateTravelTimeBuffer_def)
next
  case (Some dest)
  show ?thesis
  proof (cases "cacheMiss env (bufferCache st) (bufferCacheKeyOf env dest arrivalTime)")
    case False
    then have "calculateTravelTimeBuffer env st (Some dest) arrivalTime
                 = (data (the (bufferCache st (bufferCacheKeyOf env dest arrivalTime))), st)"
      by (auto simp: calculateTravelTimeBuffer_def cacheMiss_def bufferCacheKeyOf_def Let_def
               split: option.splits)
    then show ?thesis
      using assms by (simp add: Some)
  next
    case True
    obtain travelData st1 where
      tt: "calculateTravelTime env st (Some (trim (toUpperCase dest))) arrivalTime
             = (Inr travelData, st1)"
      using calculateTravelTime_returns by blast
    have st1: "bufferCache st1 = bufferCache st \<and> bufferEstimates st1 = bufferEstimates st"
      using calculateTravelTime_buffers [of env st "Some (trim (toUpperCase dest))" arrivalTime]
      by (simp add: tt)
    have r: "snd (calculateTravelTimeBuffer env st (Some dest) arrivalTime)
               = st1\<lparr>bufferCache := (bufferCache st1)
                        (bufferCacheKeyOf env dest arrivalTime
                           := Some \<lparr>timestamp = dateNow env,
                                    data = roundedTravelTime travelData\<rparr>),
                      bufferEstimates := (bufferEstimates st1)
                        (bufferCacheKeyOf env dest arrivalTime := Some travelData)\<rparr>"
      using True tt
      by (auto simp: calculateTravelTimeBuffer_def cacheMiss_def bufferCacheKeyOf_def Let_def
               split: option.splits)
    show ?thesis
      using assms by (simp add: Some r st1 buffersAreRounded_def)
  qed
qed

lemma reachable_buffersAreRounded: "reachable st \<Longrightarrow> buffersAreRounded st"
proof (induction rule: reachable.induct)
  case constructed
  then show ?case
    by (simp add: buffersAreRounded_def empty_maps_state_def)
next
  case (geocoded st env address)
  then show ?case
    using addressToLatLng_buffers buffersAreRounded_unchanged by blast
next
  case (timed st env destinationAddress arrivalTime)
  then show ?case
    using calculateTravelTime_buffers buffersAreRounded_unchanged by blast
next
  case (buffered st env destinationAddress arrivalTime)
  then show ?case
    by (simp add: calculateTravelTimeBuffer_keeps_rounded)
qed

lemma roundedTravelTime_bounds:
  "30 dvd roundedTravelTime travelData
   \<and> ceilDiv (traffic_value travelData) 60 \<le> roundedTravelTime travelData
   \<and> roundedTravelTime travelData < ceilDiv (traffic_value travelData) 60 + 30
   \<and> (30 \<le> roundedTravelTime travelData) = (0 < traffic_value travelData)"
  using ceilDiv_30_bounds [of "ceilDiv (traffic_value travelData) 60"]
        rounded_at_least_30 [of "traffic_value travelData"]
  by (simp add: roundedTravelTime_def Let_def)

text \<open>
  C7 (as amended). In every state the service can reach, for every address and optional
  arrival time, the travel-buffer computation answers with the one-way minutes of a travel
  estimate rounded up to a multiple of 30 (a multiple of 30, not below the minutes and less
  than 30 above them): the estimate it obtains in this call when no valid buffer is cached
  (it never fails to obtain one), and otherwise the estimate the cached buffer was computed
  from. The answer is at least 30 exactly when that estimate is of more than zero seconds;
  there is no minimum.
\<close>

theorem calculateTravelTimeBuffer_rounds_up:
  assumes "reachable st"
  shows "case bufferEstimates (snd (calculateTravelTimeBuffer env st (Some dest) arrivalTime))
                (bufferCacheKeyOf env dest arrivalTime) of
           None \<Rightarrow> False
         | Some travelData \<Rightarrow>
             (let r = fst (calculateTravelTimeBuffer env st (Some dest) arrivalTime);
                  m = ceilDiv (traffic_value travelData) 60
              in 30 dvd r \<and> m \<le> r \<and> r < m + 30 \<and> (30 \<le> r) = (0 < traffic_value travelData))
             \<and> (if cacheMiss env (bufferCache st) (bufferCacheKeyOf env dest arrivalTime)
                 then fst (calculateTravelTime env st (Some (trim (toUpperCase dest))) arrivalTime)
                        = Inr travelData
                 else bufferEstimates st (bufferCacheKeyOf env dest arrivalTime)
                        = Some travelData)"
proof (cases "cacheMiss env (bufferCache st) (bufferCacheKeyOf env dest arrivalTime)")
  case True
  obtain travelData st1 where
    tt: "calculateTravelTime env st (Some (trim (toUpperCase dest))) arrivalTime
           = (Inr travelData, st1)"
    using calculateTravelTime_returns by blast
  have r: "calculateTravelTimeBuffer env st (Some dest) arrivalTime
             = (roundedTravelTime travelData,
                st1\<lparr>bufferCache := (bufferCache st1)
                      (bufferCacheKeyOf env dest arrivalTime
                         := Some \<lparr>timestamp = dateNow env, data = roundedTravelTime travelData\<rparr>),
                    bufferEstimates := (bufferEstimates st1)
                      (bufferCacheKeyOf env dest arrivalTime := Some travelData)\<rparr>)"
    using True tt
    by (auto simp: calculateTravelTimeBuffer_def cacheMiss_def bufferCacheKeyOf_def Let_def
             split: option.splits)
  show ?thesis
    using True roundedTravelTime_bounds [of travelData]
    by (simp add: r tt Let_def)
next
  case False
  then obtain c where
    c: "bufferCache st (bufferCacheKeyOf env dest arrivalTime) = Some c" "isCacheValid env c"
    by (auto simp: cacheMiss_def split: option.splits)
  have r: "calculateTravelTimeBuffer env st (Some dest) arrivalTime = (data c, st)"
    using c by (simp add: calculateTravelTimeBuffer_def bufferCacheKeyOf_def Let_def)
  have "buffersAreRounded st"
    using assms by (rule reachable_buffersAreRounded)
  then obtain travelData where
    td: "bufferEstimates st (bufferCacheKeyOf env dest arrivalTime) = Some travelData"
        "data c = roundedTravelTime travelData"
    using c(1) by (auto simp: buffersAreRounded_def split: option.splits)
  show ?thesis
    using False roundedTravelTime_bounds [of travelData]
    by (simp add: r td Let_def)
qed

theorem calculateTravelTimeBuffer_rounds_up_witness:
  "reachable warm_maps_state
   \<and> \<not> cacheMiss office_trip_env (bufferCache warm_maps_state)
         (bufferCacheKeyOf office_trip_env ''12 Main St'' None)
   \<and> fst (calculateTravelTimeBuffer office_trip_env warm_maps_state (Some ''12 Main St'') None) = 30"
proof -
  have reach: "reachable warm_maps_state"
    unfolding warm_maps_state_def by (intro reachable.buffered reachable.constructed)
  have hit: "\<not> cacheMiss office_trip_env (bufferCache warm_maps_state)
               (bufferCacheKeyOf office_trip_env ''12 Main St'' None)"
    by code_simp
  have "map_option traffic_value
          (bufferEstimates
             (snd (calculateTravelTimeBuffer office_trip_env warm_maps_state
                     (Some ''12 Main St'') None))
             (bufferCacheKeyOf office_trip_env ''12 Main St'' None)) = Some 1200"
    by code_simp
  then obtain travelData where
    td: "bufferEstimates
           (snd (calculateTravelTimeBuffer office_trip_env warm_maps_state
                   (Some ''12 Main St'') None))
           (bufferCacheKeyOf office_trip_env ''12 Main St'' None) = Some travelData"
        "traffic_value travelData = 1200"
    by auto
  have m: "ceilDiv 1200 60 = 20"
    by (simp add: ceilDiv_def)
  have "30 dvd r \<and> 20 \<le> r \<and> r < 50 \<Longrightarrow> r = 30" for r :: int
    by presburger
  then show ?thesis
    using calculateTravelTimeBuffer_rounds_up [OF reach, of office_trip_env "''12 Main St''" None]
          reach hit
    by (simp add: td m Let_def)
qed

text \<open>A trip that takes zero seconds (here: to the office itself) gets a buffer of 0, below
  the 30 minutes the specification promises.\<close>

theorem calculateTravelTimeBuffer_zero_counterexample:
  "\<not> 30 \<le> fst (calculateTravelTimeBuffer office_trip_env empty_maps_state
                   (Some ''825 Parkway St Suite 8, Jupiter, FL 33477'') None)"
  by code_simp

text \<open>
  C10. When geocoding an address fails (the request throws, or the status is not \<open>OK\<close>, or
  there are no results; the address is not cached) and the upper-cased address contains
  neither \<open>STUART\<close> nor \<open>SE FEDERAL HWY\<close>, the address-to-coordinates operation raises
  nothing and returns the office's own coordinates, leaving the state as it was; and a
  route lookup for that destination that reaches the routes API (key configured, no valid
  cached travel result) posts a request whose origin and destination are both the office.
\<close>

theorem addressToLatLng_failure_gives_office:
  assumes "a \<noteq> []"
    and "geocodeCache st (toUpperCase (trim a)) = None"
    and "geocodeFailed (geocodeApi env (trim a))"
    and "\<not> str_includes (toUpperCase (trim a)) ''STUART''"
    and "\<not> str_includes (toUpperCase (trim a)) ''SE FEDERAL HWY''"
  shows "addressToLatLng env st (Some a) = (Inr officeLatLng, st)
         \<and> (truthy (apiKey env) \<and> cacheMiss env (travelTimeCache st) (getCacheKey env a arrivalTime)
              \<longrightarrow> routeCalls (snd (calculateTravelTime env st (Some a) arrivalTime))
                    = routeCalls st @ [\<lparr>origin = officeLatLng, destination = officeLatLng,
                                         departureTime = arrivalTime\<rparr>])"
proof -
  have geo: "addressToLatLng env st (Some a) = (Inr officeLatLng, st)"
    using addressToLatLng_fallback [OF assms(1,2,3)] assms(4,5)
    by (simp add: geocodeFallback_def)
  have "routeCalls (snd (calculateTravelTime env st (Some a) arrivalTime))
          = routeCalls st @ [\<lparr>origin = officeLatLng, destination = officeLatLng,
                               departureTime = arrivalTime\<rparr>]"
    if "truthy (apiKey env)"
      and "cacheMiss env (travelTimeCache st) (getCacheKey env a arrivalTime)"
    using that assms(1)
    by (auto simp: calculateTravelTime_def calculateTravelTime_try_def geo cacheMiss_def
                   truthy_def Let_def
             split: option.splits route_response.splits list.splits)
  then show ?thesis
    using geo by blast
qed

theorem addressToLatLng_failure_gives_office_witness:
  "addressToLatLng geocoder_down_env empty_maps_state (Some ''12 Main St, Jupiter FL'')
     = (Inr officeLatLng, empty_maps_state)
   \<and> routeCalls (snd (calculateTravelTime geocoder_down_env empty_maps_state
                        (Some ''12 Main St, Jupiter FL'') None))
     = [\<lparr>origin = officeLatLng, destination = officeLatLng, departureTime = None\<rparr>]"
proof -
  have h1: "''12 Main St, Jupiter FL'' \<noteq> []"
    by simp
  have h2: "geocodeCache empty_maps_state (toUpperCase (trim ''12 Main St, Jupiter FL'')) = None"
    by (simp add: empty_maps_state_def)
  have h3: "geocodeFailed (geocodeApi geocoder_down_env (trim ''12 Main St, Jupiter FL''))"
    by (simp add: geocodeFailed_def geocoder_down_env_def)
  have h4: "\<not> str_includes (toUpperCase (trim ''12 Main St, Jupiter FL'')) ''STUART''"
    by code_simp
  have h5: "\<not> str_includes (toUpperCase (trim ''12 Main St, Jupiter FL'')) ''SE FEDERAL HWY''"
    by code_simp
  have h6: "truthy (apiKey geocoder_down_env)"
    by (simp add: truthy_def geocoder_down_env_def office_trip_env_def)
  have h7: "cacheMiss geocoder_down_env (travelTimeCache empty_maps_state)
              (getCacheKey geocoder_down_env ''12 Main St, Jupiter FL'' None)"
    by (simp add: cacheMiss_def empty_maps_state_def)
  have h8: "routeCalls empty_maps_state = []"
    by (simp add: empty_maps_state_def)
  show ?thesis
    using addressToLatLng_failure_gives_office [OF h1 h2 h3 h4 h5, of None] h6 h7 h8
    by simp
qed

section \<open>Properties of the duration policy\<close>

lemma calculateDurationFromSquareFootage_sum:
  "calculateDurationFromSquareFootage tb squareFootage propertyPrice propertyAddress bookingDateTime
     = baseMinutes squareFootage + priceSurchargeMinutes propertyPrice
       + (if truthy propertyAddress
          then 2 * travelBufferMinutes tb (orEmpty propertyAddress) bookingDateTime
          else 0)"
  by (auto simp: calculateDurationFromSquareFootage_def baseMinutes_def priceSurchargeMinutes_def
                 travelBufferMinutes_def truthy_def orEmpty_def Let_def
           split: option.splits sum.splits)

lemma serviceBuffer_never_defaults:
  "travelBufferMinutes (serviceBuffer menv mst) address bookingDateTime
     = fst (calculateTravelTimeBuffer menv mst (Some address) bookingDateTime)"
  by (simp add: travelBufferMinutes_def serviceBuffer_def)

lemma roundedTravelTime_defaultResult: "roundedTravelTime (defaultResult dest) = 60"
  by (simp add: roundedTravelTime_def defaultResult_def ceilDiv_def)

lemma failed_estimate_buffer:
  assumes "cacheMiss menv (bufferCache mst) (bufferCacheKeyOf menv address arrivalTime)"
    and "isl (fst (calculateTravelTime_try menv mst (Some (trim (toUpperCase address))) arrivalTime))"
  shows "fst (calculateTravelTimeBuffer menv mst (Some address) arrivalTime) = 60"
proof -
  obtain e st1 where
    t: "calculateTravelTime_try menv mst (Some (trim (toUpperCase address))) arrivalTime
          = (Inl e, st1)"
    using assms(2)
    by (cases "calculateTravelTime_try menv mst (Some (trim (toUpperCase address))) arrivalTime")
       (auto simp: isl_def)
  have "fst (calculateTravelTime menv mst (Some (trim (toUpperCase address))) arrivalTime)
          = Inr (defaultResult (trim (toUpperCase address)))"
    by (simp add: calculateTravelTime_def t)
  then show ?thesis
    using assms(1)
    by (auto simp: calculateTravelTimeBuffer_def cacheMiss_def bufferCacheKeyOf_def Let_def
                   roundedTravelTime_defaultResult
             split: option.splits prod.splits sum.splits)
qed

text \<open>
  C4. The total is the base minutes plus the price surcharge plus, when an address is
  supplied, twice the travel buffer, and the travel term is zero without an address (lemma
  \<open>calculateDurationFromSquareFootage_sum\<close>). The 30 minutes of the specification are
  what the function adds when the buffer call throws, which the maps service never does for
  an address (lemma \<open>serviceBuffer_never_defaults\<close>): when its travel estimate fails, the
  service substitutes a default trip of 35 minutes in traffic and rounds it up to 60. With
  the service in place and no valid buffer cached, a failed travel estimate therefore adds
  twice 60 minutes, not twice 30.
\<close>

theorem failed_estimate_adds_an_hour_each_way:
  assumes "address \<noteq> []"
    and "cacheMiss menv (bufferCache mst) (bufferCacheKeyOf menv address bookingDateTime)"
    and "isl (fst (calculateTravelTime_try menv mst (Some (trim (toUpperCase address)))
                     bookingDateTime))"
  shows "calculateDurationFromSquareFootage (serviceBuffer menv mst) squareFootage propertyPrice
           (Some address) bookingDateTime
         = baseMinutes squareFootage + priceSurchargeMinutes propertyPrice + 2 * 60"
  using assms(1)
  by (simp add: calculateDurationFromSquareFootage_sum serviceBuffer_never_defaults
                failed_estimate_buffer [OF assms(2,3)] truthy_def orEmpty_def)

theorem failed_estimate_adds_an_hour_each_way_witness:
  "isl (fst (calculateTravelTime_try routes_down_env empty_maps_state
               (Some (trim (toUpperCase ''12 Main St, Jupiter''))) None))
   \<and> baseMinutes (Some ''2500'') + priceSurchargeMinutes None + 2 * 30 = 120
   \<and> calculateDurationFromSquareFootage (serviceBuffer routes_down_env empty_maps_state)
        (Some ''2500'') None (Some ''12 Main St, Jupiter'') None = 180"
proof -
  have h1: "''12 Main St, Jupiter'' \<noteq> []"
    by simp
  have h2: "cacheMiss routes_down_env (bufferCache empty_maps_state)
              (bufferCacheKeyOf routes_down_env ''12 Main St, Jupiter'' None)"
    by (simp add: cacheMiss_def empty_maps_state_def)
  have h3: "isl (fst (calculateTravelTime_try routes_down_env empty_maps_state
                        (Some (trim (toUpperCase ''12 Main St, Jupiter''))) None))"
    by code_simp
  have b: "baseMinutes (Some ''2500'') = 60"
    by code_simp
  have p: "priceSurchargeMinutes None = 0"
    by code_simp
  show ?thesis
    using failed_estimate_adds_an_hour_each_way [OF h1 h2 h3, of "Some ''2500''" None]
    by (simp add: h3 b p)
qed

lemma requestedDuration_service_type:
  assumes "\<not> truthy (square_footage q)"
  shows "requestedDuration tb q = requestedDuration tb' (q\<lparr>property_address := a\<rparr>)"
  using assms by (simp add: requestedDuration_def)

text \<open>
  C5. Without a square footage the duration comes from the \<open>service_type\<close> table
  (standard 120, extended 180, otherwise 60), and the specification has the round trip added
  to it when an address is present. The route does not add it: a \<open>standard\<close> request with
  an address and a 30-minute buffer asks for 120 minutes, not 180, and the slot loop, which
  takes twice the buffer off again, offers appointments of 60 minutes, the first from 9:30
  to 10:30.
\<close>

theorem service_type_duration_has_no_travel:
  "requestedDuration (travelTimeBufferOf monday_env) (standard_query 20766) = 120
   \<and> travelTimeBufferOf monday_env ''12 Main St, Jupiter'' None = Inr 30
   \<and> map (\<lambda>s. (start_time s, end_time s))
        (take 1 (projr (availableSlots monday_env (standard_query 20766))))
       = [(''9:30 AM'', ''10:30 AM'')]"
  by code_simp

theorem service_type_duration_has_no_travel_witness:
  "requestedDuration (travelTimeBufferOf monday_env) (standard_query 20766) \<noteq> 120 + 2 * 30"
  using service_type_duration_has_no_travel by simp

section \<open>Properties of the availability route\<close>

lemma parseInt_2500: "parseInt ''2500'' = Some 2500"
  by code_simp

lemma requestedDuration_2500:
  assumes "square_footage q = Some ''2500''" "property_price q = None" "property_address q = None"
  shows "requestedDuration tb q = 60"
  using assms
  by (simp add: requestedDuration_def truthy_def calculateDurationFromSquareFootage_def
                parseInt_2500)

lemma candidateSlot_free:
  assumes "photographers env = [p]"
    and "\<forall>ev \<in> set (eventsOf m p). \<not> isBusy ev"
    and "property_address q = None"
    and "540 \<le> s" "s \<le> 960"
  shows "candidateSlot env q d m 540 1020 60 0 s = Some (hourlySlot p s)"
  using assms
  by (simp add: candidateSlot_def recalculatedSlotEnd_def photographerFree_def truthy_def
                hourlySlot_def list_ex_iff Let_def)

lemma generateSlots_step:
  assumes "photographers env = [p]"
    and "\<forall>ev \<in> set (eventsOf m p). \<not> isBusy ev"
    and "property_address q = None"
    and "540 \<le> s" "s \<le> 960"
  shows "generateSlots env q d m 540 1020 60 0 s
           = hourlySlot p s # generateSlots env q d m 540 1020 60 0 (s + 30)"
  using assms(4,5) candidateSlot_free [OF assms]
  by (subst generateSlots.simps) simp

lemma generateSlots_stop: "generateSlots env q d m 540 1020 60 0 990 = []"
  by (subst generateSlots.simps) simp

lemma generateSlots_free_day:
  assumes "photographers env = [p]"
    and "\<forall>ev \<in> set (eventsOf m p). \<not> isBusy ev"
    and "property_address q = None"
  shows "generateSlots env q d m 540 1020 60 0 540
           = map (hourlySlot p) [540, 570, 600, 630, 660, 690, 720, 750, 780, 810, 840, 870,
                                 900, 930, 960]"
  by (simp add: generateSlots_step [OF assms] generateSlots_stop)

text \<open>
  C1 (as amended). For a date that passes the date checks, with no holidays, active hours
  09:00-17:00 for its weekday, one photographer whose calendar holds no busy event, square
  footage 2500 (60 minutes in all) and no address, the slot list has a slot for every
  half hour from the opening time: it starts with 9:00 AM - 10:00 AM, ends with 4:00 PM -
  5:00 PM, and has 15 slots.
\<close>

theorem free_day_has_fifteen_slots:
  assumes "date q = Some d"
    and "square_footage q = Some ''2500''"
    and "property_price q = None"
    and "property_address q = None"
    and "today env < d"
    and "d = today env + 1 \<longrightarrow> isBeforeCutoffTime env"
    and "holidayCheck env d = QueryRows []"
    and "operatingHoursQuery env (getCorrectDayOfWeek d) = QueryRows (row # rest)"
    and "open_time row = \<lparr>hh = 9, mm = 0, ss = 0\<rparr>"
    and "close_time row = \<lparr>hh = 17, mm = 0, ss = 0\<rparr>"
    and "photographers env = [p]"
    and "getPhotographersAvailability env = Inr m"
    and "\<forall>ev \<in> set (eventsOf m p). \<not> isBusy ev"
  shows "case availableSlots env q of
           Inl e \<Rightarrow> False
         | Inr slots \<Rightarrow>
             slots = map (hourlySlot p) [540, 570, 600, 630, 660, 690, 720, 750, 780, 810, 840,
                                        870, 900, 930, 960]
             \<and> hd slots = \<lparr>start_time = ''9:00 AM'', end_time = ''10:00 AM'',
                            photographer = p, is_primary = True\<rparr>
             \<and> last slots = \<lparr>start_time = ''4:00 PM'', end_time = ''5:00 PM'',
                              photographer = p, is_primary = True\<rparr>
             \<and> length slots = 15"
proof -
  have dur: "requestedDuration (travelTimeBufferOf env) q = 60"
    using assms(2,3,4) by (rule requestedDuration_2500)
  have slots: "generateSlots env q d m 540 1020 60 0 540
           = map (hourlySlot p) [540, 570, 600, 630, 660, 690, 720, 750, 780, 810, 840, 870,
                                 900, 930, 960]"
    using assms(11,13,4) by (rule generateSlots_free_day)
  have rest: "slotsOfDate env q d = Inr (generateSlots env q d m 540 1020 60 0 540)"
    using assms(4,7,8,9,10,11,12)
    by (simp add: slotsOfDate_def dur timeToMinutes_def Let_def)
  have main: "availableSlots env q = slotsOfDate env q d"
    using assms(1,5,6)
    by (auto simp: availableSlots_def isDateInPast_def isDateToday_def isDateTomorrow_def)
  have t1: "minutesToTime 540 = ''9:00 AM''" by code_simp
  have t2: "minutesToTime 600 = ''10:00 AM''" by code_simp
  have t3: "minutesToTime 960 = ''4:00 PM''" by code_simp
  have t4: "minutesToTime 1020 = ''5:00 PM''" by code_simp
  show ?thesis
    by (simp add: main rest slots hourlySlot_def t1 t2 t3 t4)
qed

theorem free_day_has_fifteen_slots_witness:
  "case availableSlots monday_env (sqft_query 20766) of
     Inl e \<Rightarrow> False
   | Inr slots \<Rightarrow>
       hd slots = \<lparr>start_time = ''9:00 AM'', end_time = ''10:00 AM'',
                    photographer = ''cory@wfpcc.com'', is_primary = True\<rparr>
       \<and> last slots = \<lparr>start_time = ''4:00 PM'', end_time = ''5:00 PM'',
                        photographer = ''cory@wfpcc.com'', is_primary = True\<rparr>
       \<and> length slots = 15"
proof -
  have h1: "date (sqft_query 20766) = Some 20766"
    and h2: "square_footage (sqft_query 20766) = Some ''2500''"
    and h3: "property_price (sqft_query 20766) = None"
    and h4: "property_address (sqft_query 20766) = None"
    by (simp_all add: sqft_query_def)
  have h5: "today monday_env < 20766"
    and h6: "20766 = today monday_env + 1 \<longrightarrow> isBeforeCutoffTime monday_env"
    and h11: "photographers monday_env = [''cory@wfpcc.com'']"
    and h12: "getPhotographersAvailability monday_env = Inr [''cory@wfpcc.com'' \<mapsto> []]"
    by (simp_all add: monday_env_def)
  have h7: "holidayCheck monday_env 20766 = QueryRows []"
    by code_simp
  have h8: "operatingHoursQuery monday_env (getCorrectDayOfWeek 20766)
              = QueryRows (monday_hours # [])"
    by code_simp
  have h9: "open_time monday_hours = \<lparr>hh = 9, mm = 0, ss = 0\<rparr>"
    and h10: "close_time monday_hours = \<lparr>hh = 17, mm = 0, ss = 0\<rparr>"
    by (simp_all add: monday_hours_def nine_to_five_def)
  have h13: "\<forall>ev \<in> set (eventsOf [''cory@wfpcc.com'' \<mapsto> []] ''cory@wfpcc.com''). \<not> isBusy ev"
    by (simp add: eventsOf_def)
  show ?thesis
    using free_day_has_fifteen_slots [OF h1 h2 h3 h4 h5 h6 h7 h8 h9 h10 h11 h12 h13]
    by (simp split: sum.splits)
qed

text \<open>On such a day the list has 15 slots, not the 17 of the specification.\<close>

theorem free_day_slot_count_counterexample:
  "length (projr (availableSlots monday_env (sqft_query 20766))) \<noteq> 17"
  by code_simp

lemma localMidnight_holidays:
  "localMidnight (env\<lparr>holidays := h, holidayQueryFails := b\<rparr>) = localMidnight env"
  by (intro ext) (simp add: localMidnight_def)

lemma dateAtMinutes_holidays:
  "dateAtMinutes (env\<lparr>holidays := h, holidayQueryFails := b\<rparr>) = dateAtMinutes env"
  by (intro ext) (simp add: dateAtMinutes_def localMidnight_holidays)

lemma gapSufficient_holidays:
  "gapSufficient (env\<lparr>holidays := h, holidayQueryFails := b\<rparr>) = gapSufficient env"
  by (intro ext) (simp add: gapSufficient_def)

lemma hasSufficientTravelTime_holidays:
  "hasSufficientTravelTime (env\<lparr>holidays := h, holidayQueryFails := b\<rparr>)
     = hasSufficientTravelTime env"
  by (intro ext)
     (simp add: hasSufficientTravelTime_def gapSufficient_holidays Let_def cong: list.case_cong)

lemma photographerFree_holidays:
  "photographerFree (env\<lparr>holidays := h, holidayQueryFails := b\<rparr>) = photographerFree env"
  by (intro ext)
     (simp only: photographerFree_def dateAtMinutes_holidays hasSufficientTravelTime_holidays)

lemma recalculatedSlotEnd_holidays:
  "recalculatedSlotEnd (env\<lparr>holidays := h, holidayQueryFails := b\<rparr>) = recalculatedSlotEnd env"
  by (intro ext) (simp add: recalculatedSlotEnd_def Let_def)

lemma candidateSlot_holidays:
  "candidateSlot (env\<lparr>holidays := h, holidayQueryFails := b\<rparr>) = candidateSlot env"
  by (intro ext)
     (simp add: candidateSlot_def recalculatedSlotEnd_holidays photographerFree_holidays
                localMidnight_holidays Let_def
           cong: option.case_cong list.case_cong)

lemma generateSlots_holidays:
  "generateSlots (env\<lparr>holidays := h, holidayQueryFails := b\<rparr>) q d m openM closeM dur tb s
     = generateSlots env q d m openM closeM dur tb s"
proof (induction env q d m openM closeM dur tb s rule: generateSlots.induct)
  case (1 env q d m openM closeM dur tb s)
  show ?case
  proof (cases "s + dur - tb * 2 \<le> closeM")
    case True
    then show ?thesis
      using "1.IH" [OF True]
      by (subst generateSlots.simps, subst (2) generateSlots.simps)
         (simp add: candidateSlot_holidays)
  next
    case False
    then show ?thesis
      by (subst generateSlots.simps, subst (2) generateSlots.simps) simp
  qed
qed

lemma operatingHoursQuery_holiday_lookup:
  "operatingHoursQuery (env\<lparr>holidays := h, holidayQueryFails := b\<rparr>) = operatingHoursQuery env"
  by (intro ext) (simp add: operatingHoursQuery_def)

lemma slotsOfDate_failed_lookup:
  assumes "holidayQueryFails env"
  shows "slotsOfDate env q d = slotsOfDate (env\<lparr>holidays := [], holidayQueryFails := False\<rparr>) q d"
  using assms
  by (simp add: slotsOfDate_def holidayCheck_def operatingHoursQuery_holiday_lookup
                generateSlots_holidays Let_def
           cong: query_result.case_cong list.case_cong sum.case_cong option.case_cong if_cong)

text \<open>
  C2 (as amended). For every date with an active holiday row, the slot list is empty,
  whatever the operating hours and the calendars hold, as long as the holiday lookup
  succeeds. When the lookup throws, the route goes on without it: the list is the one the
  same request gets when the holidays table is empty.
\<close>

theorem holiday_has_no_slots_unless_lookup_fails:
  assumes "date q = Some d"
    and "\<exists>h \<in> set (holidays env). holiday_date h = d \<and> holiday_is_active h"
  shows "availableSlots env q
           = (if holidayQueryFails env
              then availableSlots (env\<lparr>holidays := [], holidayQueryFails := False\<rparr>) q
              else Inr [])"
proof (cases "holidayQueryFails env")
  case False
  have "filter (\<lambda>r. holiday_date r = d \<and> holiday_is_active r) (holidays env) \<noteq> []"
    using assms(2) by (auto simp: filter_empty_conv)
  then have "slotsOfDate env q d = Inr []"
    using False by (simp add: slotsOfDate_def holidayCheck_def)
  then show ?thesis
    using assms(1) False by (simp add: availableSlots_def)
next
  case True
  then show ?thesis
    using assms(1) slotsOfDate_failed_lookup [OF True, of q d]
    by (auto simp: availableSlots_def isDateInPast_def isDateToday_def isDateTomorrow_def
                   isBeforeCutoffTime_def)
qed

theorem holiday_has_no_slots_unless_lookup_fails_witness:
  "availableSlots monday_env (sqft_query 20783) = Inr []
   \<and> availableSlots holiday_lookup_down_env (sqft_query 20783)
       = availableSlots (monday_env\<lparr>holidays := []\<rparr>) (sqft_query 20783)"
proof -
  have h1: "date (sqft_query 20783) = Some 20783"
    by (simp add: sqft_query_def)
  have h2: "\<exists>h \<in> set (holidays monday_env). holiday_date h = 20783 \<and> holiday_is_active h"
    by (simp add: monday_env_def)
  have h3: "\<exists>h \<in> set (holidays holiday_lookup_down_env).
              holiday_date h = 20783 \<and> holiday_is_active h"
    by (simp add: holiday_lookup_down_env_def monday_env_def)
  have e: "holiday_lookup_down_env\<lparr>holidays := [], holidayQueryFails := False\<rparr>
             = monday_env\<lparr>holidays := []\<rparr>"
    by (simp add: holiday_lookup_down_env_def monday_env_def)
  have f: "\<not> holidayQueryFails monday_env" "holidayQueryFails holiday_lookup_down_env"
    by (simp_all add: holiday_lookup_down_env_def monday_env_def)
  show ?thesis
    using holiday_has_no_slots_unless_lookup_fails [OF h1 h2]
          holiday_has_no_slots_unless_lookup_fails [OF h1 h3]
    by (simp add: e f)
qed

text \<open>With the holiday query throwing, a request for Thursday 26 November 2026, which
  has an active holiday row, gets slots.\<close>

theorem failed_holiday_lookup_counterexample:
  "holidays holiday_lookup_down_env = [\<lparr>holiday_date = 20783, holiday_is_active = True\<rparr>]
   \<and> date (sqft_query 20783) = Some 20783
   \<and> availableSlots holiday_lookup_down_env (sqft_query 20783) \<noteq> Inr []"
  by code_simp

lemma localMidnight_today: "localMidnight (env\<lparr>today := t\<rparr>) = localMidnight env"
  by (intro ext) (simp add: localMidnight_def)

lemma dateAtMinutes_today: "dateAtMinutes (env\<lparr>today := t\<rparr>) = dateAtMinutes env"
  by (intro ext) (simp add: dateAtMinutes_def localMidnight_today)

lemma gapSufficient_today: "gapSufficient (env\<lparr>today := t\<rparr>) = gapSufficient env"
  by (intro ext) (simp add: gapSufficient_def)

lemma hasSufficientTravelTime_today:
  "hasSufficientTravelTime (env\<lparr>today := t\<rparr>) = hasSufficientTravelTime env"
  by (intro ext)
     (simp add: hasSufficientTravelTime_def gapSufficient_today Let_def cong: list.case_cong)

lemma photographerFree_today:
  "photographerFree (env\<lparr>today := t\<rparr>) = photographerFree env"
  by (intro ext)
     (simp only: photographerFree_def dateAtMinutes_today hasSufficientTravelTime_today)

lemma recalculatedSlotEnd_today:
  "recalculatedSlotEnd (env\<lparr>today := t\<rparr>) = recalculatedSlotEnd env"
  by (intro ext) (simp add: recalculatedSlotEnd_def Let_def)

lemma candidateSlot_today:
  "candidateSlot (env\<lparr>today := t\<rparr>) = candidateSlot env"
  by (intro ext)
     (simp add: candidateSlot_def recalculatedSlotEnd_today photographerFree_today
                localMidnight_today Let_def
           cong: option.case_cong list.case_cong)

lemma generateSlots_today:
  "generateSlots (env\<lparr>today := t\<rparr>) q d m openM closeM dur tb s
     = generateSlots env q d m openM closeM dur tb s"
proof (induction env q d m openM closeM dur tb s rule: generateSlots.induct)
  case (1 env q d m openM closeM dur tb s)
  show ?case
  proof (cases "s + dur - tb * 2 \<le> closeM")
    case True
    then show ?thesis
      using "1.IH" [OF True]
      by (subst generateSlots.simps, subst (2) generateSlots.simps)
         (simp add: candidateSlot_today)
  next
    case False
    then show ?thesis
      by (subst generateSlots.simps, subst (2) generateSlots.simps) simp
  qed
qed

lemma holidayCheck_today: "holidayCheck (env\<lparr>today := t\<rparr>) = holidayCheck env"
  by (intro ext) (simp add: holidayCheck_def)

lemma operatingHoursQuery_today:
  "operatingHoursQuery (env\<lparr>today := t\<rparr>) = operatingHoursQuery env"
  by (intro ext) (simp add: operatingHoursQuery_def)

lemma slotsOfDate_today: "slotsOfDate (env\<lparr>today := t\<rparr>) q d = slotsOfDate env q d"
  by (simp add: slotsOfDate_def holidayCheck_today operatingHoursQuery_today
                generateSlots_today Let_def
           cong: query_result.case_cong list.case_cong sum.case_cong option.case_cong if_cong)

text \<open>
  C3 (as amended). For the date equal to tomorrow, the slot list is empty whenever the
  current time in New York is later than 17:00 (an hour above 17, or hour 17 with a minute
  other than 0). At 17:00 sharp and before, the cutoff does not apply: the list is the one
  the same request gets a day earlier, when the date is two days ahead, so it is empty only
  for a holiday, a weekday without active hours or a day without a free slot.
\<close>

theorem tomorrow_cutoff_is_after_five:
  assumes "date q = Some (today env + 1)"
  shows "(\<not> isBeforeCutoffTime env \<longrightarrow> availableSlots env q = Inr [])
         \<and> (isBeforeCutoffTime env \<longrightarrow>
               availableSlots env q = availableSlots (env\<lparr>today := today env - 1\<rparr>) q)
         \<and> isBeforeCutoffTime env = (estHours env < 17 \<or> (estHours env = 17 \<and> estMinutes env = 0))"
proof -
  have late: "availableSlots env q = Inr []" if "\<not> isBeforeCutoffTime env"
    using assms that
    by (simp add: availableSlots_def isDateInPast_def isDateToday_def isDateTomorrow_def)
  have early: "availableSlots env q = availableSlots (env\<lparr>today := today env - 1\<rparr>) q"
    if "isBeforeCutoffTime env"
    using assms that
    by (simp add: availableSlots_def isDateInPast_def isDateToday_def isDateTomorrow_def
                  slotsOfDate_today)
  show ?thesis
    using late early by (simp add: isBeforeCutoffTime_def)
qed

theorem tomorrow_cutoff_is_after_five_witness:
  "availableSlots half_past_five_env (sqft_query 20760) = Inr []
   \<and> availableSlots five_pm_env (sqft_query 20760)
       = availableSlots (five_pm_env\<lparr>today := 20758\<rparr>) (sqft_query 20760)"
proof -
  have h: "date (sqft_query 20760) = Some (today half_past_five_env + 1)"
    by (simp add: sqft_query_def half_past_five_env_def monday_env_def)
  have h': "date (sqft_query 20760) = Some (today five_pm_env + 1)"
    by (simp add: sqft_query_def five_pm_env_def monday_env_def)
  have late: "\<not> isBeforeCutoffTime half_past_five_env"
    by (simp add: isBeforeCutoffTime_def half_past_five_env_def monday_env_def)
  have sharp: "isBeforeCutoffTime five_pm_env"
    by (simp add: isBeforeCutoffTime_def five_pm_env_def monday_env_def)
  have t: "today five_pm_env - 1 = 20758"
    by (simp add: five_pm_env_def monday_env_def)
  show ?thesis
    using tomorrow_cutoff_is_after_five [OF h] tomorrow_cutoff_is_after_five [OF h'] late sharp t
    by simp
qed

text \<open>At 17:00 sharp the list for tomorrow, a free Tuesday, is not empty.\<close>

theorem tomorrow_at_five_counterexample:
  "availableSlots five_pm_env (sqft_query 20760) \<noteq> Inr []"
  by code_simp

lemma gapSufficient_applied:
  assumes "locationNeedsTravel ev"
    and "travelTimeBufferOf env address (Some lookupTime) = Inr travelBuffer"
  shows "gapSufficient env address lookupTime gapMs ev = (travelBuffer * 60000 \<le> gapMs)"
  using assms by (auto simp: gapSufficient_def)

text \<open>
  C9. The travel-gap check consults the travel buffer only for an adjacent busy event (the
  latest one ending before the slot, the earliest one starting after it) whose location is
  present, not empty and does not contain \<open>825 Parkway St\<close>. When the adjacent events have
  no location or the office's, the check passes whatever the gap and whatever the maps
  service answers.
\<close>

theorem gap_check_needs_a_location_elsewhere:
  assumes "case priorEvents photographerEvents slotStartDate of
             [] \<Rightarrow> True | mostRecentEvent # _ \<Rightarrow> noLocationOrOffice mostRecentEvent"
    and "case nextEvents photographerEvents slotEndDate of
           [] \<Rightarrow> True | nextEvent # _ \<Rightarrow> noLocationOrOffice nextEvent"
  shows "hasSufficientTravelTime env address photographerEvents slotStartDate slotEndDate"
proof -
  have skip: "gapSufficient env address t g ev" if "noLocationOrOffice ev" for t g ev
    using that
    by (auto simp: gapSufficient_def locationNeedsTravel_def noLocationOrOffice_def
             split: option.splits)
  show ?thesis
    using assms skip
    by (auto simp: hasSufficientTravelTime_def split: list.splits)
qed

theorem gap_check_needs_a_location_elsewhere_witness:
  "priorEvents [early_event] 1794236400000 = [early_event]
   \<and> location early_event = None
   \<and> 1794236400000 - event_end early_event = 60000
   \<and> hasSufficientTravelTime monday_env ''12 Main St, Jupiter'' [early_event]
       1794236400000 1794240000000"
proof -
  have p: "priorEvents [early_event] 1794236400000 = [early_event]"
    by code_simp
  have n: "nextEvents [early_event] 1794240000000 = []"
    by code_simp
  have l: "noLocationOrOffice early_event"
    by (simp add: noLocationOrOffice_def early_event_def)
  have h1: "case priorEvents [early_event] 1794236400000 of
              [] \<Rightarrow> True | mostRecentEvent # _ \<Rightarrow> noLocationOrOffice mostRecentEvent"
    by (simp add: p l)
  have h2: "case nextEvents [early_event] 1794240000000 of
              [] \<Rightarrow> True | nextEvent # _ \<Rightarrow> noLocationOrOffice nextEvent"
    by (simp add: n)
  have l': "location early_event = None"
    and g: "1794236400000 - event_end early_event = 60000"
    by (simp_all add: early_event_def)
  show ?thesis
    using gap_check_needs_a_location_elsewhere [OF h1 h2, of monday_env "''12 Main St, Jupiter''"]
          p l' g
    by simp
qed

section \<open>Properties of the booking route\<close>

lemma createBooking_missing_fields:
  assumes "booking_date body = None \<or> req_start_time body = None \<or> req_end_time body = None
           \<or> \<not> truthy (customer_name body) \<or> \<not> truthy (customer_email body)
           \<or> \<not> truthy (req_property_address body)"
  shows "createBooking env body = Inl MissingFields"
  using assms
  by (auto simp: createBooking_def split: option.splits)

lemma createBooking_wellFormed:
  assumes "wellFormed env body"
    and "booking_date body = Some d"
    and "req_start_time body = Some startT"
    and "req_end_time body = Some endT"
  shows "createBooking env body
           = createBookingFor env body d startT endT (orEmpty (req_property_address body))
               (selectedOf env body)"
  using assms
  by (auto simp: createBooking_def wellFormed_def selectedOf_def split: option.splits list.splits)

lemma createBooking_outside_hours:
  assumes "wellFormed env body"
    and "booking_date body = Some d"
    and "req_start_time body = Some startT"
    and "req_end_time body = Some endT"
    and "getPhotographersAvailability env = Inr msAvailability"
    and "msAvailability (selectedOf env body) = Some events"
    and "operatingHoursQuery env (getCorrectDayOfWeek d) = QueryRows rows"
    and "case rows of
           [] \<Rightarrow> True
         | row # _ \<Rightarrow> int (hh startT) * 60 + int (mm startT) < openMinutesOf row
                       \<or> closeMinutesOf row < int (hh endT) * 60 + int (mm endT)"
  shows "createBooking env body = Inl OutsideHours"
  using assms(5-8)
  by (auto simp: createBooking_wellFormed [OF assms(1-4)] createBookingFor_def Let_def
                 openMinutesOf_def closeMinutesOf_def
           split: list.splits)

lemma createBooking_conflict:
  assumes "wellFormed env body"
    and "booking_date body = Some d"
    and "req_start_time body = Some startT"
    and "req_end_time body = Some endT"
    and "getPhotographersAvailability env = Inr msAvailability"
    and "msAvailability (selectedOf env body) = Some events"
    and "operatingHoursQuery env (getCorrectDayOfWeek d) = QueryRows (row # rest)"
    and "openMinutesOf row \<le> int (hh startT) * 60 + int (mm startT)"
    and "int (hh endT) * 60 + int (mm endT) \<le> closeMinutesOf row"
    and "list_ex (\<lambda>ev. isBusy ev \<and> conflictsWith (utcDateTime d startT) (utcDateTime d endT) ev)
           events"
  shows "createBooking env body = Inl Conflict"
  using assms(5-10)
  by (simp add: createBooking_wellFormed [OF assms(1-4)] createBookingFor_def Let_def
                openMinutesOf_def closeMinutesOf_def)

lemma conflictsWith_overlap:
  assumes "bookedStart < bookedEnd" "event_start ev < event_end ev"
  shows "conflictsWith bookedStart bookedEnd ev
           = (bookedStart < event_end ev \<and> event_start ev < bookedEnd)"
  using assms by (auto simp: conflictsWith_def)

lemma operatingHoursQuery_holidays:
  "operatingHoursQuery (env\<lparr>holidays := h\<rparr>) = operatingHoursQuery env"
  by (intro ext) (simp add: operatingHoursQuery_def)

lemma localDateTime_holidays: "localDateTime (env\<lparr>holidays := h\<rparr>) = localDateTime env"
  by (intro ext) (simp add: localDateTime_def localMidnight_def)

lemma minutesOfDay_holidays: "minutesOfDay (env\<lparr>holidays := h\<rparr>) = minutesOfDay env"
  by (intro ext) (simp add: minutesOfDay_def)

lemma setHoursOf_holidays: "setHoursOf (env\<lparr>holidays := h\<rparr>) = setHoursOf env"
  by (intro ext) (simp add: setHoursOf_def)

lemma bookingLocals_holidays: "bookingLocals (env\<lparr>holidays := h\<rparr>) = bookingLocals env"
  by (intro ext)
     (simp add: bookingLocals_def localDateTime_holidays minutesOfDay_holidays
                setHoursOf_holidays Let_def)

lemma createBookingFor_ignores_holidays:
  "createBookingFor (env\<lparr>holidays := h\<rparr>) = createBookingFor env"
  by (intro ext)
     (simp add: createBookingFor_def operatingHoursQuery_holidays bookingLocals_holidays Let_def
           cong: sum.case_cong option.case_cong query_result.case_cong list.case_cong if_cong)

lemma createBooking_ignores_holidays:
  "createBooking (env\<lparr>holidays := h\<rparr>) body = createBooking env body"
  by (simp add: createBooking_def createBookingFor_ignores_holidays
           cong: option.case_cong list.case_cong if_cong)

text \<open>
  C6. The specification has the create-booking operation fail with \<open>Conflict\<close>,
  \<open>OutsideHours\<close>, \<open>Holiday\<close> and \<open>MissingFields\<close>. Missing fields, a span outside
  the hours and a conflict are refused (the lemmas above), but the route never reads the
  holidays table: a complete request for Thursday 26 November 2026, which has an active
  holiday row, inside the operating hours and with a free calendar, is created.
\<close>

theorem holiday_booking_is_created:
  "holidayCheck monday_env 20783 = QueryRows [\<lparr>holiday_date = 20783, holiday_is_active = True\<rparr>]
   \<and> booking_date holiday_booking = Some 20783
   \<and> createBooking monday_env holiday_booking \<noteq> Inl Holiday
   \<and> \<not> isl (createBooking monday_env holiday_booking)"
  by code_simp

theorem holiday_booking_is_created_witness:
  "createBooking monday_env holiday_booking \<noteq> Inl Holiday"
  using holiday_booking_is_created by simp

lemma setHoursOf_minutes:
  assumes "0 \<le> h * 60 + m" "h * 60 + m < 1440"
  shows "minutesOfDay env (setHoursOf env x h m) = h * 60 + m"
proof -
  define D where "D = (x + serverTz env) div 86400000"
  define r where "r = (x + serverTz env) mod 1000"
  have r: "0 \<le> r" "r < 60000"
    by (simp_all add: r_def)
  have "setHoursOf env x h m + serverTz env = (D * 1440 + (h * 60 + m)) * 60000 + r"
    by (simp add: setHoursOf_def D_def r_def algebra_simps)
  then have "(setHoursOf env x h m + serverTz env) div 60000 = D * 1440 + (h * 60 + m)"
    using r by simp
  then show ?thesis
    using assms by (simp add: minutesOfDay_def)
qed

lemma bookingLocals_travelInfo:
  "localTravelInfo (bookingLocals env body d startT endT (orEmpty (req_property_address body)) row)
     = bookingTravelInfo (travelFor env body d startT)
       @ (if closeMinutesOf row < minutesOfDay env (inflatedEnd env body d startT endT)
          then overflowNote else [])"
  by (simp add: bookingLocals_def Let_def closeMinutesOf_def inflatedEnd_def travelFor_def)

lemma created_notes_are_the_request_notes:
  assumes "createBooking env body = Inr created"
  shows "bookingNotes (bookingData created) = orEmpty (booking_notes body)"
  using assms
  by (auto simp: createBooking_def createBookingFor_def Let_def
           split: option.splits list.splits if_splits sum.splits query_result.splits)

text \<open>
  C8. A complete request whose own span lies inside the operating hours and meets no busy
  event is created even when the span with travel does not fit the hours. If the minute of
  the day of the start with travel falls before the opening time, the start handed to the
  calendar is set to the opening time of that day; the end with travel is handed on as it
  is. If it falls after the closing time, the overflow note is appended to the variable
  \<open>travelInfo\<close>, which nothing reads afterwards: the notes handed to the calendar are
  the notes of the request, without the warning.
\<close>

theorem travel_overflow_is_clamped_but_not_noted:
  assumes "wellFormed env body"
    and "booking_date body = Some d"
    and "req_start_time body = Some startT"
    and "req_end_time body = Some endT"
    and "getPhotographersAvailability env = Inr msAvailability"
    and "msAvailability (selectedOf env body) = Some events"
    and "operatingHoursQuery env (getCorrectDayOfWeek d) = QueryRows (row # rest)"
    and "openMinutesOf row \<le> int (hh startT) * 60 + int (mm startT)"
    and "int (hh endT) * 60 + int (mm endT) \<le> closeMinutesOf row"
    and "\<not> list_ex (\<lambda>ev. isBusy ev \<and> conflictsWith (utcDateTime d startT) (utcDateTime d endT) ev)
             events"
  shows "case createBooking env body of
           Inl e \<Rightarrow> False
         | Inr created \<Rightarrow>
             startDateTime (bookingData created)
               = (if minutesOfDay env (inflatedStart env body d startT) < openMinutesOf row
                  then setHoursOf env (inflatedStart env body d startT)
                         (int (hh (open_time row))) (int (mm (open_time row)))
                  else inflatedStart env body d startT)
             \<and> (minutesOfDay env (inflatedStart env body d startT) < openMinutesOf row
                  \<and> openMinutesOf row < 1440
                \<longrightarrow> minutesOfDay env (startDateTime (bookingData created)) = openMinutesOf row)
             \<and> endDateTime (bookingData created) = inflatedEnd env body d startT endT
             \<and> (closeMinutesOf row < minutesOfDay env (inflatedEnd env body d startT endT)
                \<longrightarrow> localTravelInfo (bookingLocals env body d startT endT
                                       (orEmpty (req_property_address body)) row)
                      = bookingTravelInfo (travelFor env body d startT) @ overflowNote
                    \<and> localTravelInfo (bookingLocals env body d startT endT
                                         (orEmpty (req_property_address body)) row)
                      \<noteq> bookingTravelInfo (travelFor env body d startT))
             \<and> bookingNotes (bookingData created) = orEmpty (booking_notes body)"
proof -
  have clamp: "minutesOfDay env (setHoursOf env x (int (hh (open_time row)))
                                   (int (mm (open_time row)))) = openMinutesOf row"
    if "openMinutesOf row < 1440" for x
    using that setHoursOf_minutes [of "int (hh (open_time row))" "int (mm (open_time row))" env x]
    by (simp add: openMinutesOf_def)
  have nonempty: "overflowNote \<noteq> []"
    by (simp add: overflowNote_def)
  show ?thesis
    using assms(5-10) clamp nonempty
    by (simp add: createBooking_wellFormed [OF assms(1-4)] createBookingFor_def Let_def
                  bookingLocals_def
                  openMinutesOf_def closeMinutesOf_def inflatedStart_def inflatedEnd_def
                  travelFor_def)
qed

theorem travel_overflow_is_clamped_but_not_noted_witness:
  "case createBooking monday_env whole_day_booking of
     Inl e \<Rightarrow> False
   | Inr created \<Rightarrow>
       inflatedStart monday_env whole_day_booking 20766 \<lparr>hh = 9, mm = 0, ss = 0\<rparr>
         = localDateTime monday_env 20766 \<lparr>hh = 8, mm = 30, ss = 0\<rparr>
       \<and> startDateTime (bookingData created)
           = localDateTime monday_env 20766 \<lparr>hh = 9, mm = 0, ss = 0\<rparr>
       \<and> endDateTime (bookingData created)
           = localDateTime monday_env 20766 \<lparr>hh = 17, mm = 30, ss = 0\<rparr>
       \<and> str_includes
           (localTravelInfo (bookingLocals monday_env whole_day_booking 20766
                               \<lparr>hh = 9, mm = 0, ss = 0\<rparr> \<lparr>hh = 17, mm = 0, ss = 0\<rparr>
                               ''12 Main St'' monday_hours))
           ''Note: Travel back to the office will extend beyond operating hours.''
       \<and> bookingNotes (bookingData created) = []"
proof -
  have h1: "wellFormed monday_env whole_day_booking"
    by code_simp
  have h2: "booking_date whole_day_booking = Some 20766"
    and h3: "req_start_time whole_day_booking = Some \<lparr>hh = 9, mm = 0, ss = 0\<rparr>"
    and h4: "req_end_time whole_day_booking = Some \<lparr>hh = 17, mm = 0, ss = 0\<rparr>"
    by (simp_all add: whole_day_booking_def holiday_booking_def)
  have h5: "getPhotographersAvailability monday_env = Inr [''cory@wfpcc.com'' \<mapsto> []]"
    by (simp add: monday_env_def)
  have sel: "selectedOf monday_env whole_day_booking = ''cory@wfpcc.com''"
    by code_simp
  have h6: "[''cory@wfpcc.com'' \<mapsto> []] (selectedOf monday_env whole_day_booking) = Some []"
    by (simp add: sel)
  have h7: "operatingHoursQuery monday_env (getCorrectDayOfWeek 20766)
              = QueryRows (monday_hours # [])"
    by code_simp
  have h8: "openMinutesOf monday_hours
              \<le> int (hh \<lparr>hh = 9, mm = 0, ss = 0\<rparr>) * 60 + int (mm \<lparr>hh = 9, mm = 0, ss = 0\<rparr>)"
    and h9: "int (hh \<lparr>hh = 17, mm = 0, ss = 0\<rparr>) * 60 + int (mm \<lparr>hh = 17, mm = 0, ss = 0\<rparr>)
              \<le> closeMinutesOf monday_hours"
    by (simp_all add: openMinutesOf_def closeMinutesOf_def monday_hours_def nine_to_five_def)
  have h10: "\<not> list_ex (\<lambda>ev. isBusy ev
                          \<and> conflictsWith (utcDateTime 20766 \<lparr>hh = 9, mm = 0, ss = 0\<rparr>)
                              (utcDateTime 20766 \<lparr>hh = 17, mm = 0, ss = 0\<rparr>) ev) []"
    by simp
  have e1: "inflatedStart monday_env whole_day_booking 20766 \<lparr>hh = 9, mm = 0, ss = 0\<rparr>
              = localDateTime monday_env 20766 \<lparr>hh = 8, mm = 30, ss = 0\<rparr>"
    by code_simp
  have e2: "minutesOfDay monday_env (localDateTime monday_env 20766 \<lparr>hh = 8, mm = 30, ss = 0\<rparr>)
              < openMinutesOf monday_hours"
    by code_simp
  have e3: "setHoursOf monday_env (localDateTime monday_env 20766 \<lparr>hh = 8, mm = 30, ss = 0\<rparr>)
              (int (hh (open_time monday_hours))) (int (mm (open_time monday_hours)))
              = localDateTime monday_env 20766 \<lparr>hh = 9, mm = 0, ss = 0\<rparr>"
    by code_simp
  have e4: "inflatedEnd monday_env whole_day_booking 20766 \<lparr>hh = 9, mm = 0, ss = 0\<rparr>
              \<lparr>hh = 17, mm = 0, ss = 0\<rparr>
              = localDateTime monday_env 20766 \<lparr>hh = 17, mm = 30, ss = 0\<rparr>"
    by code_simp
  have e5: "closeMinutesOf monday_hours
              < minutesOfDay monday_env (localDateTime monday_env 20766 \<lparr>hh = 17, mm = 30, ss = 0\<rparr>)"
    by code_simp
  have e6: "str_includes
           (localTravelInfo (bookingLocals monday_env whole_day_booking 20766
                               \<lparr>hh = 9, mm = 0, ss = 0\<rparr> \<lparr>hh = 17, mm = 0, ss = 0\<rparr>
                               ''12 Main St'' monday_hours))
           ''Note: Travel back to the office will extend beyond operating hours.''"
    by code_simp
  have e7: "orEmpty (booking_notes whole_day_booking) = []"
    by code_simp
  show ?thesis
    using travel_overflow_is_clamped_but_not_noted [OF h1 h2 h3 h4 h5 h6 h7 h8 h9 h10]
    by (simp add: e1 e2 e3 e4 e5 e6 e7 split: sum.splits)
qed

text \<open>The opening time is compared with the minute of the day of the start with travel:
  a start with travel that falls on the evening before is handed on as it is.\<close>

lemma start_before_midnight_is_not_clamped:
  "case createBooking round_the_clock_env midnight_booking of
     Inl e \<Rightarrow> False
   | Inr created \<Rightarrow>
       startDateTime (bookingData created)
         = localDateTime round_the_clock_env 20765 \<lparr>hh = 23, mm = 30, ss = 0\<rparr>"
  by code_simp

end
